theory Spec2Isabelle
  imports Complex_Main "HOL-Library.AList" "HOL-Library.Multiset"
begin

section \<open>Python values, strings and dictionaries\<close>

text \<open>
  The repository is Python. A dictionary (a scraped traineeship, a job loaded from JSON)
  is an association list in insertion order: \<open>map_of\<close> is the lookup and \<open>AList.update\<close>
  is the item assignment \<^verbatim>\<open>d[k] = v\<close>, which replaces the value of a key in place and adds
  a new key at the end. The values modelled are strings, integers (the page number) and
  \<^verbatim>\<open>None\<close>, which is what the scraper writes and reads back from JSON; floats, lists and
  nested objects of other JSON files are not. A string is the list of its characters; a character stands for a code point
  below 256, which is enough for every literal of the source.
\<close>

datatype pyval = Str string | Num int | PyNone

type_synonym pydict = "(string \<times> pyval) list"

abbreviation NOT_SPECIFIED :: string where
  "NOT_SPECIFIED \<equiv> ''Not specified''"

definition is_str :: "pyval \<Rightarrow> bool" where
  "is_str v = (case v of Str s \<Rightarrow> True | _ \<Rightarrow> False)"

text \<open>\<^verbatim>\<open>str.strip()\<close>: the white space of Python among the code points below 256.\<close>

definition is_space :: "char \<Rightarrow> bool" where
  "is_space c = (c \<in> set [CHR 0x09, CHR 0x0A, CHR 0x0B, CHR 0x0C, CHR 0x0D,
     CHR 0x1C, CHR 0x1D, CHR 0x1E, CHR 0x1F, CHR 0x20, CHR 0x85, CHR 0xA0])"

definition py_strip :: "string \<Rightarrow> string" where
  "py_strip s = rev (dropWhile is_space (rev (dropWhile is_space s)))"

text \<open>\<^verbatim>\<open>str.lower()\<close> on code points below 256: A to Z, and the accented capitals but the
  multiplication sign, move up by 32.\<close>

definition lower_char :: "char \<Rightarrow> char" where
  "lower_char c =
     (let n = (of_char c :: nat)
      in if (65 \<le> n \<and> n \<le> 90) \<or> (192 \<le> n \<and> n \<le> 222 \<and> n \<noteq> 215)
         then char_of (n + 32) else c)"

definition py_lower :: "string \<Rightarrow> string" where
  "py_lower s = map lower_char s"

text \<open>\<^verbatim>\<open>s.startswith(p)\<close> and the substring test \<^verbatim>\<open>sub in s\<close>.\<close>

fun startswith :: "string \<Rightarrow> string \<Rightarrow> bool" where
  "startswith s [] = True"
| "startswith [] (p # ps) = False"
| "startswith (c # cs) (p # ps) = (c = p \<and> startswith cs ps)"

fun py_in :: "string \<Rightarrow> string \<Rightarrow> bool" where
  "py_in sub [] = (sub = [])"
| "py_in sub (c # cs) = (startswith (c # cs) sub \<or> py_in sub cs)"

text \<open>
  \<^verbatim>\<open>s.split(sep)\<close> for a separator that is not empty (the source splits at the literals
  \<^verbatim>\<open>'page='\<close>, \<^verbatim>\<open>'Duration:'\<close> and \<^verbatim>\<open>'Post date:'\<close> only). \<open>cur\<close> holds the piece being read,
  reversed. After a match the scan skips the separator: its first character is \<open>c\<close>, the
  other \<open>length sep - 1\<close> are dropped from \<open>cs\<close>.
\<close>

function split_go :: "string \<Rightarrow> string \<Rightarrow> string \<Rightarrow> string list" where
  "split_go sep cur [] = [rev cur]"
| "split_go sep cur (c # cs) =
     (if startswith (c # cs) sep
      then rev cur # split_go sep [] (drop (length sep - 1) cs)
      else split_go sep (c # cur) cs)"
  by pat_completeness auto
termination
  by (relation "measure (\<lambda>(sep, cur, s). length s)") auto

definition py_split :: "string \<Rightarrow> string \<Rightarrow> string list" where
  "py_split s sep = split_go sep [] s"

text \<open>\<^verbatim>\<open>s.replace(old, '')\<close> removes every occurrence of \<open>old\<close>, read from the left.\<close>

definition py_remove :: "string \<Rightarrow> string \<Rightarrow> string" where
  "py_remove s old = concat (py_split s old)"

text \<open>\<^verbatim>\<open>s.split(':', 1)[1]\<close>, used where \<^verbatim>\<open>':' in s\<close> holds: what follows the first colon.\<close>

definition after_first_colon :: "string \<Rightarrow> string" where
  "after_first_colon s = drop 1 (dropWhile (\<lambda>c. c \<noteq> CHR '':'') s)"

text \<open>\<^verbatim>\<open>sep.join(parts)\<close>.\<close>

fun py_join :: "string \<Rightarrow> string list \<Rightarrow> string" where
  "py_join sep [] = []"
| "py_join sep [p] = p"
| "py_join sep (p # q # ps) = p @ sep @ py_join sep (q # ps)"

text \<open>\<^verbatim>\<open>str(n)\<close> of an integer, in decimal.\<close>

definition digit_char :: "nat \<Rightarrow> char" where
  "digit_char d = char_of (48 + d)"

fun str_nat :: "nat \<Rightarrow> string" where
  "str_nat n = (if n < 10 then [digit_char n] else str_nat (n div 10) @ [digit_char (n mod 10)])"

definition str_int :: "int \<Rightarrow> string" where
  "str_int i = (if i < 0 then CHR ''-'' # str_nat (nat (- i)) else str_nat (nat i))"

text \<open>
  \<^verbatim>\<open>int(s)\<close> of a string: white space around it is dropped, a sign may come first, then
  decimal digits, single underscores allowed between two digits. \<open>None\<close> is \<^verbatim>\<open>ValueError\<close>.
  The white space \<^verbatim>\<open>int\<close> drops is not that of \<^verbatim>\<open>str.strip()\<close>: the separators \<^verbatim>\<open>0x1C\<close> to
  \<^verbatim>\<open>0x1F\<close> are no white space for it, so \<^verbatim>\<open>int\<close> raises for a string that carries one.
  Python (3.11 and later) also raises for a string of more than 4300 digits.
\<close>

definition is_int_space :: "char \<Rightarrow> bool" where
  "is_int_space c = (c \<in> set [CHR 0x09, CHR 0x0A, CHR 0x0B, CHR 0x0C, CHR 0x0D,
     CHR 0x20, CHR 0x85, CHR 0xA0])"

definition is_digit :: "char \<Rightarrow> bool" where
  "is_digit c = (48 \<le> (of_char c :: nat) \<and> (of_char c :: nat) \<le> 57)"

fun digits_value :: "int \<Rightarrow> bool \<Rightarrow> string \<Rightarrow> int option" where
  "digits_value acc after_digit [] = (if after_digit then Some acc else None)"
| "digits_value acc after_digit (c # cs) =
     (if is_digit c then digits_value (acc * 10 + (int (of_char c) - 48)) True cs
      else if c = CHR ''_'' \<and> after_digit then
        (case cs of [] \<Rightarrow> None
         | d # ds \<Rightarrow> if is_digit d then digits_value acc False cs else None)
      else None)"

definition py_int :: "string \<Rightarrow> int option" where
  "py_int s =
     (if 4300 < length (filter is_digit s) then None
      else
        (case rev (dropWhile is_int_space (rev (dropWhile is_int_space s))) of
           [] \<Rightarrow> None
         | c # cs \<Rightarrow>
             if c = CHR ''-'' then map_option uminus (digits_value 0 False cs)
             else if c = CHR ''+'' then digits_value 0 False cs
             else digits_value 0 False (c # cs)))"

text \<open>The slice \<^verbatim>\<open>xs[:n]\<close>: a negative \<open>n\<close> counts from the end.\<close>

definition py_take :: "int \<Rightarrow> 'a list \<Rightarrow> 'a list" where
  "py_take n xs = (if 0 \<le> n then take (nat n) xs else take (length xs - nat (- n)) xs)"


section \<open>The parsed page and the network\<close>

text \<open>
  The scraper reads a page through BeautifulSoup: \<^verbatim>\<open>select\<close> and \<^verbatim>\<open>select_one\<close> with a CSS
  selector, the text of an element and its \<^verbatim>\<open>href\<close> attribute. An element is modelled by
  what it answers: the strings below it in document order, its \<^verbatim>\<open>href\<close> if it has one, and
  the elements each selector matches below it. The selector engine itself is not modelled:
  the theorems hold for every way a page could answer its selectors.
\<close>

datatype elem =
  Elem (el_strings: "string list") (el_href: "string option") (el_select: "string \<Rightarrow> elem list")

definition select_one :: "elem \<Rightarrow> string \<Rightarrow> elem option" where
  "select_one e selector = (case el_select e selector of [] \<Rightarrow> None | x # _ \<Rightarrow> Some x)"

text \<open>\<^verbatim>\<open>e.text.strip()\<close>, \<^verbatim>\<open>e.get_text(strip=True)\<close> and
  \<^verbatim>\<open>e.get_text(strip=True, separator=sep)\<close>: with \<^verbatim>\<open>strip=True\<close> each string is stripped
  and the empty ones are left out before they are joined.\<close>

definition text_strip :: "elem \<Rightarrow> string" where
  "text_strip e = py_strip (concat (el_strings e))"

definition stripped_strings :: "elem \<Rightarrow> string list" where
  "stripped_strings e = filter (\<lambda>s. s \<noteq> []) (map py_strip (el_strings e))"

definition get_text_strip :: "elem \<Rightarrow> string" where
  "get_text_strip e = concat (stripped_strings e)"

definition get_text_strip_sep :: "string \<Rightarrow> elem \<Rightarrow> string" where
  "get_text_strip_sep sep e = py_join sep (stripped_strings e)"

text \<open>
  The exceptions of \<^verbatim>\<open>requests\<close> are all \<^verbatim>\<open>RequestException\<close>s. A session answers a URL
  with one of them or with a response, whose body BeautifulSoup parses; the site is taken
  to answer a URL the same way throughout one crawl. \<^verbatim>\<open>raise_for_status\<close> raises for the
  status codes 400 to 599.
\<close>

datatype request_exception = ConnectionError | Timeout | HTTPError int | MissingSchema

datatype exn =
  RequestException request_exception
  | KeyError string
  | ValueError
  | IndexError
  | AttributeError
  | TypeError
  | ImportError
  | FileNotFoundError

record response =
  status_code :: int
  soup :: elem

definition raise_for_status :: "response \<Rightarrow> request_exception + unit" where
  "raise_for_status r =
     (if 400 \<le> status_code r \<and> status_code r < 600 then Inl (HTTPError (status_code r))
      else Inr ())"

record scraper =
  base_url :: string
  session_get :: "string \<Rightarrow> request_exception + response"

section \<open>scraper.py: the number of pages\<close>

text \<open>One pass of the loop over the pager items: the page an item stands for, or the
  exception its \<^verbatim>\<open>try\<close> body raises.\<close>

definition pager_item_page :: "elem \<Rightarrow> exn + int" where
  "pager_item_page item =
     (case el_href item of
        Some href \<Rightarrow>
          (case py_split href ''page='' of
             a # b # rest \<Rightarrow>
               (case py_int b of Some n \<Rightarrow> Inr (n + 1) | None \<Rightarrow> Inl ValueError)
           | _ \<Rightarrow> Inl IndexError)
      | None \<Rightarrow>
          (case py_int (text_strip item) of Some n \<Rightarrow> Inr n | None \<Rightarrow> Inl ValueError))"

fun pager_pages :: "elem list \<Rightarrow> exn + int list" where
  "pager_pages [] = Inr []"
| "pager_pages (item # items) =
     (case pager_item_page item of
        Inr num \<Rightarrow>
          (case pager_pages items of Inl e \<Rightarrow> Inl e | Inr pages \<Rightarrow> Inr (num # pages))
      | Inl e \<Rightarrow> if e = ValueError \<or> e = IndexError then pager_pages items else Inl e)"

definition py_max :: "int list \<Rightarrow> int" where
  "py_max pages = (case pages of [] \<Rightarrow> 1 | x # xs \<Rightarrow> fold max xs x)"

text \<open>The body of the \<^verbatim>\<open>try\<close> of \<^verbatim>\<open>get_total_pages\<close>.\<close>

definition total_pages_try :: "elem \<Rightarrow> exn + int" where
  "total_pages_try page =
     (let last_href =
            (case el_select page ''.pager-last a'' of
               [] \<Rightarrow> None
             | p # ps \<Rightarrow>
                 (let href = (case el_href p of Some h \<Rightarrow> h | None \<Rightarrow> [])
                  in if py_in ''page='' href then Some href else None))
      in case last_href of
           Some href \<Rightarrow>
             (case py_split href ''page='' of
                a # b # rest \<Rightarrow>
                  (case py_int b of Some n \<Rightarrow> Inr (n + 1) | None \<Rightarrow> Inl ValueError)
              | _ \<Rightarrow> Inl IndexError)
         | None \<Rightarrow>
             (let pager_items = el_select page ''.pager-item a, .pager-current''
              in if pager_items \<noteq> [] then
                   (case pager_pages pager_items of
                      Inl e \<Rightarrow> Inl e
                    | Inr pages \<Rightarrow> Inr (py_max pages))
                 else Inr 1))"

text \<open>
  \<^verbatim>\<open>get_total_pages\<close>: the fetch of the index page stands before the \<^verbatim>\<open>try\<close>, so what it
  raises leaves the function; whatever the body of the \<^verbatim>\<open>try\<close> raises is caught and
  answered with 1.
\<close>

definition get_total_pages :: "scraper \<Rightarrow> exn + int" where
  "get_total_pages s =
     (case session_get s (base_url s) of
        Inl e \<Rightarrow> Inl (RequestException e)
      | Inr response \<Rightarrow>
          (case total_pages_try (soup response) of Inl e \<Rightarrow> Inr 1 | Inr n \<Rightarrow> Inr n))"

section \<open>scraper.py: one page of listings\<close>

definition duration_selectors :: "string list" where
  "duration_selectors =
     [''.ds-top-footer .field-name-field-traineeship-duration .field-items .field-item'',
      ''.ds-top-footer .field-name-field-traineeship-duration'',
      ''.field-name-field-traineeship-duration .field-item'',
      ''.field-type-taxonomy-term-reference.field-name-field-traineeship-duration .field-items .field-item'']"

definition post_date_selectors :: "string list" where
  "post_date_selectors =
     [''.ds-top-footer .field-name-post-date .field-items .field-item'',
      ''.ds-top-footer .field-name-post-date'',
      ''.field-name-post-date .field-item'',
      ''.field-type-ds.field-name-post-date .field-items .field-item'']"

text \<open>The loops over the duration and the post date selectors: the first selector that
  matches gives the text, without its label; the value stays the sentinel when none does.\<close>

fun first_labelled :: "string \<Rightarrow> elem \<Rightarrow> string list \<Rightarrow> string" where
  "first_labelled label container [] = NOT_SPECIFIED"
| "first_labelled label container (selector # rest) =
     (case select_one container selector of
        Some e \<Rightarrow>
          (let text = get_text_strip e
           in if py_in label text then py_strip (py_remove text label) else text)
      | None \<Rightarrow> first_labelled label container rest)"

definition extract_title_elem :: "elem \<Rightarrow> elem option" where
  "extract_title_elem container =
     (case select_one container ''.field-name-title a, h3.dot-title a'' of
        Some e \<Rightarrow> Some e
      | None \<Rightarrow> select_one container ''h3.title a, .media-body a'')"

definition extract_company :: "elem \<Rightarrow> string" where
  "extract_company container =
     (case select_one container ''.field-name-recruiter-name .field-item a'' of
        Some e \<Rightarrow> text_strip e
      | None \<Rightarrow> NOT_SPECIFIED)"

definition extract_location :: "elem \<Rightarrow> string" where
  "extract_location container =
     (let country_elem =
            select_one container ''.field-name-field-traineeship-location-count .field-item'';
          city_elem =
            select_one container ''.field-name-field-traineeship-location-city .field-item''
      in case country_elem of
           Some country \<Rightarrow>
             (case city_elem of
                Some city \<Rightarrow> text_strip city @ '', '' @ text_strip country
              | None \<Rightarrow> text_strip country)
         | None \<Rightarrow> NOT_SPECIFIED)"

definition extract_deadline :: "elem \<Rightarrow> string" where
  "extract_deadline container =
     (case select_one container ''.ds-top-footer .field-name-field-traineeship-apply-deadline'' of
        None \<Rightarrow> NOT_SPECIFIED
      | Some deadline_container \<Rightarrow>
          (case select_one deadline_container ''.field-items .field-item .date-display-single'' of
             Some item \<Rightarrow> text_strip item
           | None \<Rightarrow>
               (case select_one deadline_container ''.field-items .field-item'' of
                  Some item \<Rightarrow> text_strip item
                | None \<Rightarrow> NOT_SPECIFIED)))"

definition extract_field :: "elem \<Rightarrow> string" where
  "extract_field container =
     (case select_one container ''.ds-top-content h5'' of
        Some e \<Rightarrow> text_strip e
      | None \<Rightarrow> NOT_SPECIFIED)"

text \<open>
  The body of the loop over the containers of a page: \<open>Inr None\<close> is the \<^verbatim>\<open>continue\<close> of a
  container with no title, \<open>Inl\<close> an exception (the title link has no \<^verbatim>\<open>href\<close>), which the
  handler of the loop catches.
\<close>

definition extract_traineeship :: "int \<Rightarrow> elem \<Rightarrow> exn + pydict option" where
  "extract_traineeship page_num container =
     (case extract_title_elem container of
        None \<Rightarrow> Inr None
      | Some title_elem \<Rightarrow>
          (case el_href title_elem of
             None \<Rightarrow> Inl (KeyError ''href'')
           | Some href \<Rightarrow>
               (let title = text_strip title_elem;
                    link = (if startswith href ''http'' then href
                            else ''https://erasmusintern.org'' @ href)
                in Inr (Some
                     [(''title'', Str title),
                      (''company'', Str (extract_company container)),
                      (''location'', Str (extract_location container)),
                      (''duration'', Str (first_labelled ''Duration:'' container duration_selectors)),
                      (''post_date'', Str (first_labelled ''Post date:'' container post_date_selectors)),
                      (''deadline'', Str (extract_deadline container)),
                      (''field'', Str (extract_field container)),
                      (''url'', Str link),
                      (''page_number'', Num page_num)]))))"

fun listing_records :: "int \<Rightarrow> elem list \<Rightarrow> pydict list" where
  "listing_records page_num [] = []"
| "listing_records page_num (container # rest) =
     (case extract_traineeship page_num container of
        Inr (Some traineeship) \<Rightarrow> traineeship # listing_records page_num rest
      | Inr None \<Rightarrow> listing_records page_num rest
      | Inl e \<Rightarrow> listing_records page_num rest)"

definition listing_url :: "scraper \<Rightarrow> int \<Rightarrow> string" where
  "listing_url s page_num =
     (if py_in ''?'' (base_url s) then base_url s @ ''&page='' @ str_int (page_num - 1)
      else base_url s @ ''?page='' @ str_int (page_num - 1))"

definition listing_containers :: "elem \<Rightarrow> elem list" where
  "listing_containers page =
     (let listing_container = el_select page ''.media-list-items''
      in if listing_container = [] then el_select page ''.view-content > div''
         else listing_container)"

definition scrape_traineeship_listings :: "scraper \<Rightarrow> int \<Rightarrow> pydict list" where
  "scrape_traineeship_listings s page_num =
     (case session_get s (listing_url s page_num) of
        Inl e \<Rightarrow> []
      | Inr response \<Rightarrow>
          (case raise_for_status response of
             Inl e \<Rightarrow> []
           | Inr u \<Rightarrow> listing_records page_num (listing_containers (soup response))))"

section \<open>scraper.py: the detail page\<close>

definition detail_fields :: "(string \<times> string) list" where
  "detail_fields =
     [(''post_date'', ''.field-name-field-date-posted .field-item, .date-posted''),
      (''duration'', ''.field-name-field-duration .field-item, .duration''),
      (''description'', ''.field-name-body .field-item, .description'')]"

text \<open>\<^verbatim>\<open>field_name in result and result[field_name] != "Not specified"\<close>\<close>

definition has_valid_data :: "pydict \<Rightarrow> string \<Rightarrow> bool" where
  "has_valid_data result field_name =
     (case map_of result field_name of
        None \<Rightarrow> False
      | Some v \<Rightarrow> v \<noteq> Str NOT_SPECIFIED)"

definition detail_value :: "elem \<Rightarrow> string \<Rightarrow> string \<Rightarrow> string" where
  "detail_value page field_name selector =
     (case el_select page selector of
        [] \<Rightarrow> NOT_SPECIFIED
      | e # es \<Rightarrow>
          if field_name = ''website'' then (case el_href e of Some h \<Rightarrow> h | None \<Rightarrow> [])
          else (let text = get_text_strip_sep '' '' e
                in if py_in '':'' text then py_strip (after_first_colon text) else text))"

text \<open>The first loop of \<^verbatim>\<open>get_traineeship_details\<close> fills the dictionary \<^verbatim>\<open>details\<close>, the
  second one writes it into the copy of the traineeship.\<close>

fun collect_details ::
  "elem \<Rightarrow> pydict \<Rightarrow> (string \<times> string) list \<Rightarrow> (string \<times> string) list \<Rightarrow> (string \<times> string) list"
where
  "collect_details page result [] details = details"
| "collect_details page result ((field_name, selector) # rest) details =
     (if has_valid_data result field_name then collect_details page result rest details
      else collect_details page result rest
             (AList.update field_name (detail_value page field_name selector) details))"

fun merge_details :: "(string \<times> string) list \<Rightarrow> pydict \<Rightarrow> pydict" where
  "merge_details [] result = result"
| "merge_details ((key, v) # rest) result =
     (if map_of result key = None \<or> map_of result key = Some (Str NOT_SPECIFIED)
      then merge_details rest (AList.update key (Str v) result)
      else merge_details rest result)"

text \<open>\<^verbatim>\<open>session.get(url)\<close> for the value a traineeship holds under \<^verbatim>\<open>"url"\<close>: \<^verbatim>\<open>requests\<close>
  turns a value that is not a string into one and finds no scheme in it.\<close>

definition session_get_value :: "scraper \<Rightarrow> pyval \<Rightarrow> request_exception + response" where
  "session_get_value s url = (case url of Str u \<Rightarrow> session_get s u | _ \<Rightarrow> Inl MissingSchema)"

definition get_traineeship_details :: "scraper \<Rightarrow> pydict \<Rightarrow> exn + pydict" where
  "get_traineeship_details s traineeship =
     (case map_of traineeship ''url'' of
        None \<Rightarrow> Inl (KeyError ''url'')
      | Some url \<Rightarrow>
          (case map_of traineeship ''title'' of
             None \<Rightarrow> Inl (KeyError ''title'')
           | Some title \<Rightarrow>
               (case session_get_value s url of
                  Inl e \<Rightarrow> Inr traineeship
                | Inr response \<Rightarrow>
                    (case raise_for_status response of
                       Inl e \<Rightarrow> Inr traineeship
                     | Inr u \<Rightarrow>
                         Inr (merge_details
                                (collect_details (soup response) traineeship detail_fields [])
                                traineeship)))))"

section \<open>scraper.py: the crawl\<close>

fun details_of_page :: "scraper \<Rightarrow> pydict list \<Rightarrow> exn + pydict list" where
  "details_of_page s [] = Inr []"
| "details_of_page s (traineeship # rest) =
     (case get_traineeship_details s traineeship of
        Inl e \<Rightarrow> Inl e
      | Inr detailed \<Rightarrow>
          (case details_of_page s rest of
             Inl e \<Rightarrow> Inl e
           | Inr detailed_traineeships \<Rightarrow> Inr (detailed # detailed_traineeships)))"

text \<open>
  The body of the loop of \<^verbatim>\<open>scrape_all\<close> for one page: the traineeships of the page, with
  their details when those are asked for. Then the loop over the pages, with the list it
  extends. The pauses between requests and the console output change no result and are
  left out.
\<close>

definition page_result :: "scraper \<Rightarrow> bool \<Rightarrow> int \<Rightarrow> exn + pydict list" where
  "page_result s get_details page =
     (let traineeships_on_page = scrape_traineeship_listings s page
      in if get_details \<and> traineeships_on_page \<noteq> [] then details_of_page s traineeships_on_page
         else Inr traineeships_on_page)"

fun scrape_pages :: "scraper \<Rightarrow> bool \<Rightarrow> int list \<Rightarrow> pydict list \<Rightarrow> exn + pydict list" where
  "scrape_pages s get_details [] all_traineeships = Inr all_traineeships"
| "scrape_pages s get_details (page # pages) all_traineeships =
     (case page_result s get_details page of
        Inl e \<Rightarrow> Inl e
      | Inr traineeships \<Rightarrow>
          scrape_pages s get_details pages (all_traineeships @ traineeships))"

definition effective_pages :: "int \<Rightarrow> int option \<Rightarrow> int" where
  "effective_pages total_pages max_pages =
     (case max_pages of
        None \<Rightarrow> total_pages
      | Some m \<Rightarrow> if m > 0 then min total_pages m else total_pages)"

definition scrape_all :: "scraper \<Rightarrow> int option \<Rightarrow> bool \<Rightarrow> exn + pydict list" where
  "scrape_all s max_pages get_details =
     (case get_total_pages s of
        Inl e \<Rightarrow> Inl e
      | Inr total_pages \<Rightarrow>
          scrape_pages s get_details [1..effective_pages total_pages max_pages] [])"

section \<open>main.py: the scrape command\<close>

text \<open>The clean-up loop of \<^verbatim>\<open>scrape_command\<close>: every value that is \<^verbatim>\<open>None\<close> becomes the
  sentinel.\<close>

definition clean_nulls :: "pydict \<Rightarrow> pydict" where
  "clean_nulls t = map (\<lambda>(key, v). (key, if v = PyNone then Str NOT_SPECIFIED else v)) t"

text \<open>
  \<^verbatim>\<open>scrape_command\<close> with the page limit of the arguments (the one of the configuration
  when the arguments have none) and the \<^verbatim>\<open>--no-details\<close> flag. The result is the collection
  handed to \<^verbatim>\<open>save_to_csv\<close> and \<^verbatim>\<open>save_to_json\<close>, \<open>None\<close> when nothing is saved: the crawl
  raised (the handler of the command prints the error) or found nothing. Writing the files
  is not modelled.
\<close>

definition scrape_command :: "scraper \<Rightarrow> int option \<Rightarrow> int \<Rightarrow> bool \<Rightarrow> pydict list option" where
  "scrape_command s args_max_pages config_max_pages no_details =
     (let max_pages = (case args_max_pages of Some m \<Rightarrow> m | None \<Rightarrow> config_max_pages)
      in case scrape_all s (Some max_pages) (\<not> no_details) of
           Inl e \<Rightarrow> None
         | Inr traineeships \<Rightarrow>
             if traineeships = [] then None else Some (map clean_nulls traineeships))"

section \<open>search.py: keyword matching and semantic search\<close>

text \<open>
  A keyword score is a Python float, the quotient of two small integers; it is modelled by
  that quotient as a real number, without the rounding of the division. The scores of a
  model are rounded to their format, see below.

  \<^verbatim>\<open>job.get(key, '').lower()\<close> raises \<^verbatim>\<open>AttributeError\<close> for a value that is not a string.
\<close>

definition job_get_lower :: "pydict \<Rightarrow> string \<Rightarrow> exn + string" where
  "job_get_lower job key =
     (case map_of job key of
        None \<Rightarrow> Inr (py_lower [])
      | Some (Str s) \<Rightarrow> Inr (py_lower s)
      | Some v \<Rightarrow> Inl AttributeError)"

definition job_text :: "pydict \<Rightarrow> exn + string" where
  "job_text job =
     (case job_get_lower job ''title'' of
        Inl e \<Rightarrow> Inl e
      | Inr title \<Rightarrow>
     (case job_get_lower job ''company'' of
        Inl e \<Rightarrow> Inl e
      | Inr company \<Rightarrow>
     (case job_get_lower job ''field'' of
        Inl e \<Rightarrow> Inl e
      | Inr field \<Rightarrow>
     (case job_get_lower job ''description'' of
        Inl e \<Rightarrow> Inl e
      | Inr description \<Rightarrow>
          Inr (title @ '' '' @ company @ '' '' @ field @ '' '' @ description)))))"

text \<open>The inner loop of \<^verbatim>\<open>keyword_matching\<close>: one point for each query term found in the
  text of the job.\<close>

definition term_hits :: "string list \<Rightarrow> string \<Rightarrow> nat" where
  "term_hits query_terms text = length (filter (\<lambda>term. py_in term text) query_terms)"

fun keyword_matches :: "string list \<Rightarrow> pydict list \<Rightarrow> exn + (pydict \<times> real) list" where
  "keyword_matches query_terms [] = Inr []"
| "keyword_matches query_terms (job # jobs) =
     (case job_text job of
        Inl e \<Rightarrow> Inl e
      | Inr text \<Rightarrow>
          (let score = term_hits query_terms text
           in case keyword_matches query_terms jobs of
                Inl e \<Rightarrow> Inl e
              | Inr matches \<Rightarrow>
                  Inr (if score > 0
                       then (job, real score / real (length query_terms)) # matches
                       else matches)))"

text \<open>\<^verbatim>\<open>list.sort(key=..., reverse=True)\<close> is stable: elements with equal keys keep their
  order. So is the insertion sort \<open>sort_key\<close> on the negated key.\<close>

definition sort_desc :: "('a \<Rightarrow> real) \<Rightarrow> 'a list \<Rightarrow> 'a list" where
  "sort_desc key xs = sort_key (\<lambda>x. - key x) xs"

definition keyword_matching :: "pydict list \<Rightarrow> string list \<Rightarrow> exn + (pydict \<times> real) list" where
  "keyword_matching jobs query_terms =
     (case keyword_matches (map py_lower query_terms) jobs of
        Inl e \<Rightarrow> Inl e
      | Inr matches \<Rightarrow> Inr (sort_desc snd matches))"

text \<open>\<^verbatim>\<open>str.split()\<close> with no argument: the words between runs of white space.\<close>

fun words_go :: "string \<Rightarrow> string \<Rightarrow> string list" where
  "words_go cur [] = (if cur = [] then [] else [rev cur])"
| "words_go cur (c # cs) =
     (if is_space c then (if cur = [] then words_go [] cs else rev cur # words_go [] cs)
      else words_go (c # cur) cs)"

definition py_words :: "string \<Rightarrow> string list" where
  "py_words s = words_go [] s"

text \<open>\<^verbatim>\<open>str(v)\<close> as an f-string writes a value, and the text \<^verbatim>\<open>create_job_texts\<close> builds for
  one job.\<close>

definition py_str :: "pyval \<Rightarrow> string" where
  "py_str v = (case v of Str s \<Rightarrow> s | Num n \<Rightarrow> str_int n | PyNone \<Rightarrow> ''None'')"

definition job_get_str :: "pydict \<Rightarrow> string \<Rightarrow> string" where
  "job_get_str job key = (case map_of job key of None \<Rightarrow> [] | Some v \<Rightarrow> py_str v)"

definition create_job_text :: "pydict \<Rightarrow> string" where
  "create_job_text job =
     ''Title: '' @ job_get_str job ''title'' @ ''. Company: '' @ job_get_str job ''company''
       @ ''. '' @ ''Field: '' @ job_get_str job ''field'' @ ''. Description: ''
       @ job_get_str job ''description''"

definition create_job_texts :: "pydict list \<Rightarrow> string list" where
  "create_job_texts jobs = map create_job_text jobs"

text \<open>
  The scores of a model are floating-point numbers. Such a number is modelled by the real
  number it stands for, and the arithmetic on the scores rounds its result to the format:
  to a precision of \<open>p\<close> binary digits, to the nearest number of the format, a tie to the
  one whose last digit is even. \<open>emin\<close> is the exponent of the smallest normal number, below
  which the spacing of the format stays the same; \<open>emax\<close> is the largest exponent. A result
  beyond the largest number of the format (an infinity), and \<^verbatim>\<open>NaN\<close> as a score, are not
  modelled: the scores are cosines, between -1 and 1.
\<close>

definition round_half_even :: "real \<Rightarrow> int" where
  "round_half_even x =
     (let n = \<lfloor>x\<rfloor>; d = x - of_int n
      in if d < 1 / 2 then n else if 1 / 2 < d then n + 1 else if even n then n else n + 1)"

text \<open>The exponent \<open>e\<close> of a positive number \<open>y * 2 ^ e\<close>, not below \<open>emin\<close>: the number is
  halved or doubled until it lies between 1 and 2.\<close>

fun float_exponent :: "nat \<Rightarrow> int \<Rightarrow> real \<Rightarrow> int \<Rightarrow> int" where
  "float_exponent fuel emin y e =
     (if fuel = 0 then e
      else if 2 \<le> y then float_exponent (fuel - 1) emin (y / 2) (e + 1)
      else if y < 1 \<and> emin < e then float_exponent (fuel - 1) emin (y * 2) (e - 1)
      else e)"

definition pow2 :: "int \<Rightarrow> real" where
  "pow2 k = (if 0 \<le> k then 2 ^ nat k else 1 / 2 ^ nat (- k))"

definition round_float :: "nat \<Rightarrow> int \<Rightarrow> int \<Rightarrow> real \<Rightarrow> real" where
  "round_float p emin emax x =
     (if x = 0 then 0
      else
        (let e = float_exponent (nat (emax - emin) + 1) emin \<bar>x\<bar> 0;
             ulp = pow2 (e - (int p - 1))
         in of_int (round_half_even (x / ulp)) * ulp))"

text \<open>The format of a Python float and of a numpy \<^verbatim>\<open>float64\<close>, and the format \<^verbatim>\<open>float32\<close> of the
  arrays a sentence transformer returns.\<close>

definition binary64 :: "real \<Rightarrow> real" where
  "binary64 = round_float 53 (- 1022) 1023"

definition binary32 :: "real \<Rightarrow> real" where
  "binary32 = round_float 24 (- 126) 127"

text \<open>
  The sentence transformer is a library. Of a loaded model only the cosine similarity
  between the embedding of a query and the embedding of a text is used, and the format of
  the scores it returns: that number, and the rounding to that format, are what the model
  is here. A score is the similarity as a number of the format. Loading a model by name
  gives the model or raises.
\<close>

datatype st_model =
  Model (similarity: "string \<Rightarrow> string \<Rightarrow> real") (rounding: "real \<Rightarrow> real")

type_synonym st_library = "string \<Rightarrow> exn + st_model"

definition calculate_match_probabilities :: "st_model \<Rightarrow> string list \<Rightarrow> string \<Rightarrow> real list" where
  "calculate_match_probabilities model job_texts query =
     map (\<lambda>job_text. rounding model (similarity model query job_text)) job_texts"

text \<open>\<^verbatim>\<open>semantic_search\<close>: \<^verbatim>\<open>np.argsort\<close> in ascending order, reversed, cut to \<^verbatim>\<open>top_n\<close>. Among
  equal scores the order is the one a stable sort gives.\<close>

definition semantic_search ::
  "st_model \<Rightarrow> string list \<Rightarrow> pydict list \<Rightarrow> string \<Rightarrow> int \<Rightarrow> (pydict \<times> real) list" where
  "semantic_search model job_texts jobs query top_n =
     py_take top_n
       (rev (sort_key snd (zip jobs (calculate_match_probabilities model job_texts query))))"

datatype search_method = Transformer | Keyword

record search_args =
  args_query :: string
  args_results :: int
  args_method :: search_method

text \<open>
  \<^verbatim>\<open>main\<close> of search.py, from the loaded jobs on: the lines printed before the results are
  shown, and the results. An exception that is not an \<^verbatim>\<open>ImportError\<close> leaves the function.
\<close>

record search_outcome =
  printed :: "string list"
  found :: "(pydict \<times> real) list"

definition search_main :: "st_library \<Rightarrow> pydict list \<Rightarrow> search_args \<Rightarrow> exn + search_outcome" where
  "search_main library jobs args =
     (if jobs = [] then Inr \<lparr>printed = [], found = []\<rparr>
      else
        (let loaded = ''Loaded '' @ str_int (int (length jobs)) @ '' jobs. Searching for: ''
                        @ [CHR 0x27] @ args_query args @ [CHR 0x27];
             attempt =
               (case args_method args of
                  Transformer \<Rightarrow>
                    (case library ''all-MiniLM-L6-v2'' of
                       Inl e \<Rightarrow> Inl e
                     | Inr model \<Rightarrow>
                         Inr \<lparr>printed =
                                [loaded, ''Loading sentence transformer model (this may take a moment)...''],
                              found = semantic_search model (create_job_texts jobs) jobs
                                        (args_query args) (args_results args)\<rparr>)
                | Keyword \<Rightarrow>
                    (case keyword_matching jobs (py_words (args_query args)) of
                       Inl e \<Rightarrow> Inl e
                     | Inr matches \<Rightarrow>
                         Inr \<lparr>printed = [loaded, ''Using keyword matching...''],
                              found = py_take (args_results args) matches\<rparr>))
         in case attempt of
              Inr outcome \<Rightarrow> Inr outcome
            | Inl e \<Rightarrow>
                if e = ImportError then
                  (case keyword_matching jobs (py_words (args_query args)) of
                     Inl e' \<Rightarrow> Inl e'
                   | Inr matches \<Rightarrow>
                       Inr \<lparr>printed =
                              [loaded, ''Loading sentence transformer model (this may take a moment)...'',
                               ''Sentence Transformers not installed. Falling back to keyword matching.'',
                               ''To install: pip install sentence-transformers''],
                            found = py_take (args_results args) matches\<rparr>)
                else Inl e))"


section \<open>rank_jobs.py: ranking by match probability\<close>

text \<open>
  The table is a pandas \<^verbatim>\<open>DataFrame\<close>: its column names in order, and its rows, each giving
  the cell of every column. A cell holds a value of a job, a score, or \<^verbatim>\<open>NaN\<close> where the
  job has no such key. \<^verbatim>\<open>DataFrame(jobs)\<close> has the keys of the jobs as columns, in the order
  in which they first occur.
\<close>

datatype cell = Val pyval | Score real | NaN

record dataframe =
  df_columns :: "string list"
  df_rows :: "(string \<Rightarrow> cell) list"

definition first_seen :: "string list \<Rightarrow> string list" where
  "first_seen xs = rev (remdups (rev xs))"

definition job_row :: "pydict \<Rightarrow> string \<Rightarrow> cell" where
  "job_row job column = (case map_of job column of None \<Rightarrow> NaN | Some v \<Rightarrow> Val v)"

definition DataFrame :: "pydict list \<Rightarrow> dataframe" where
  "DataFrame jobs =
     \<lparr>df_columns = first_seen (concat (map (map fst) jobs)), df_rows = map job_row jobs\<rparr>"

text \<open>\<^verbatim>\<open>df[column] = values\<close>, for as many values as the table has rows: a column of that name
  is overwritten where it stands, a new one is added last.\<close>

definition set_column :: "string \<Rightarrow> cell list \<Rightarrow> dataframe \<Rightarrow> dataframe" where
  "set_column column vals df =
     \<lparr>df_columns = (if column \<in> set (df_columns df) then df_columns df
                     else df_columns df @ [column]),
      df_rows = map (\<lambda>(row, v). row(column := v)) (zip (df_rows df) vals)\<rparr>"

definition df_column :: "dataframe \<Rightarrow> string \<Rightarrow> cell list" where
  "df_column df column = map (\<lambda>row. row column) (df_rows df)"

text \<open>The number a cell counts as in a mean: none for \<^verbatim>\<open>NaN\<close> and \<^verbatim>\<open>None\<close>, which pandas
  skips; a string is no number, and pandas 2 raises \<^verbatim>\<open>TypeError\<close> for it.\<close>

definition cell_number :: "cell \<Rightarrow> exn + real option" where
  "cell_number c =
     (case c of
        Score r \<Rightarrow> Inr (Some r)
      | NaN \<Rightarrow> Inr None
      | Val (Num n) \<Rightarrow> Inr (Some (real_of_int n))
      | Val PyNone \<Rightarrow> Inr None
      | Val (Str s) \<Rightarrow> Inl TypeError)"

fun cell_numbers :: "cell list \<Rightarrow> exn + real list" where
  "cell_numbers [] = Inr []"
| "cell_numbers (c # cs) =
     (case cell_number c of
        Inl e \<Rightarrow> Inl e
      | Inr x \<Rightarrow>
          (case cell_numbers cs of
             Inl e \<Rightarrow> Inl e
           | Inr xs \<Rightarrow> Inr (case x of None \<Rightarrow> xs | Some r \<Rightarrow> r # xs)))"

text \<open>
  \<^verbatim>\<open>df[columns].mean(axis=1)\<close> for one row: the mean of the numbers among its cells,
  \<^verbatim>\<open>NaN\<close> when there is none. The mean is computed in floating point: the numbers are added
  in the order of the columns, each sum rounded, and the last sum is divided by their
  count, the quotient rounded. \<open>fl\<close> is the rounding of the format of the columns.
\<close>

definition float_sum :: "(real \<Rightarrow> real) \<Rightarrow> real list \<Rightarrow> real" where
  "float_sum fl xs = (case xs of [] \<Rightarrow> 0 | x # rest \<Rightarrow> foldl (\<lambda>a b. fl (a + b)) x rest)"

definition float_mean :: "(real \<Rightarrow> real) \<Rightarrow> real list \<Rightarrow> real" where
  "float_mean fl xs = fl (float_sum fl xs / real (length xs))"

definition row_mean :: "(real \<Rightarrow> real) \<Rightarrow> string list \<Rightarrow> (string \<Rightarrow> cell) \<Rightarrow> exn + cell" where
  "row_mean fl columns row =
     (case cell_numbers (map row columns) of
        Inl e \<Rightarrow> Inl e
      | Inr xs \<Rightarrow> Inr (if xs = [] then NaN else Score (float_mean fl xs)))"

fun row_means ::
  "(real \<Rightarrow> real) \<Rightarrow> string list \<Rightarrow> (string \<Rightarrow> cell) list \<Rightarrow> exn + cell list" where
  "row_means fl columns [] = Inr []"
| "row_means fl columns (row # rows) =
     (case row_mean fl columns row of
        Inl e \<Rightarrow> Inl e
      | Inr m \<Rightarrow>
          (case row_means fl columns rows of Inl e \<Rightarrow> Inl e | Inr ms \<Rightarrow> Inr (m # ms)))"

text \<open>
  \<^verbatim>\<open>df.sort_values(by=column, ascending=False)\<close> on a column of scores: the rows with a
  number come first, highest first, then the rows with \<^verbatim>\<open>NaN\<close>. Among rows of equal score
  the order is the one a stable sort gives; pandas, whose default sort is not stable, may
  order such rows otherwise.
\<close>

definition sort_number :: "cell \<Rightarrow> real option" where
  "sort_number c =
     (case c of Score r \<Rightarrow> Some r | Val (Num n) \<Rightarrow> Some (real_of_int n) | _ \<Rightarrow> None)"

definition sort_values_desc :: "string \<Rightarrow> dataframe \<Rightarrow> dataframe" where
  "sort_values_desc column df =
     df\<lparr>df_rows :=
          sort_desc (\<lambda>row. the (sort_number (row column)))
            (filter (\<lambda>row. sort_number (row column) \<noteq> None) (df_rows df))
          @ filter (\<lambda>row. sort_number (row column) = None) (df_rows df)\<rparr>"

definition column_name :: "string \<Rightarrow> string" where
  "column_name query =
     ''match_probability_'' @ map (\<lambda>c. if c = CHR '' '' then CHR ''_'' else c) query"

text \<open>
  The output file. When none is given, or the empty name, the functions write to a file of
  their own naming in the directory \<^verbatim>\<open>data\<close>. Before writing they create the directory of
  the file with \<^verbatim>\<open>os.makedirs(os.path.dirname(output_file), exist_ok=True)\<close>: for a file name
  that names no directory (it holds no \<^verbatim>\<open>/\<close>) the directory is the empty string, and
  \<^verbatim>\<open>os.makedirs\<close> raises \<^verbatim>\<open>FileNotFoundError\<close>. The file system itself (a directory that
  cannot be created, a file that cannot be written) is not modelled.
\<close>

definition dirname :: "string \<Rightarrow> string" where
  "dirname path =
     (let head = rev (dropWhile (\<lambda>c. c \<noteq> CHR ''/'') (rev path))
      in if list_all (\<lambda>c. c = CHR ''/'') head then head
         else rev (dropWhile (\<lambda>c. c = CHR ''/'') (rev head)))"

definition makedirs_output :: "string option \<Rightarrow> exn + unit" where
  "makedirs_output output_file =
     (case output_file of
        None \<Rightarrow> Inr ()
      | Some name \<Rightarrow>
          if name = [] then Inr ()
          else if dirname name = [] then Inl FileNotFoundError
          else Inr ())"

text \<open>
  \<^verbatim>\<open>save_to_csv\<close> of rank_jobs.py: the table it writes. Assigning a column of another
  length than the table raises \<^verbatim>\<open>ValueError\<close>.
\<close>

definition save_to_csv ::
  "pydict list \<Rightarrow> real list \<Rightarrow> string \<Rightarrow> string option \<Rightarrow> exn + dataframe" where
  "save_to_csv jobs match_probabilities query output_file =
     (if length match_probabilities \<noteq> length jobs then Inl ValueError
      else
        (case makedirs_output output_file of
           Inl e \<Rightarrow> Inl e
         | Inr u \<Rightarrow>
             Inr (sort_values_desc (column_name query)
                    (set_column (column_name query) (map Score match_probabilities)
                       (DataFrame jobs)))))"

record rank_outcome =
  rank_printed :: "string list"
  saved :: "dataframe option"

text \<open>
  \<^verbatim>\<open>process_query\<close> and \<^verbatim>\<open>process_multiple_queries\<close>, from the jobs \<^verbatim>\<open>load_data\<close> returned:
  the lines printed (but the last one, which names the output file) and the table saved,
  if one is. An exception that is not an \<^verbatim>\<open>ImportError\<close> leaves the function.
\<close>

definition process_query ::
  "st_library \<Rightarrow> pydict list \<Rightarrow> string \<Rightarrow> string \<Rightarrow> string option \<Rightarrow> string
     \<Rightarrow> exn + rank_outcome" where
  "process_query library jobs query input_file output_file model_name =
     (if jobs = [] then
        Inr \<lparr>rank_printed = [''No jobs loaded from '' @ input_file], saved = None\<rparr>
      else
        (let loaded = ''Loaded '' @ str_int (int (length jobs))
                        @ '' jobs. Calculating match probabilities for: ''
                        @ [CHR 0x27] @ query @ [CHR 0x27];
             loading = ''Loading sentence transformer model '' @ [CHR 0x27] @ model_name
                         @ [CHR 0x27] @ ''...''
         in case library model_name of
              Inr model \<Rightarrow>
                (case save_to_csv jobs
                        (calculate_match_probabilities model (create_job_texts jobs) query)
                        query output_file of
                   Inl e \<Rightarrow> Inl e
                 | Inr df \<Rightarrow> Inr \<lparr>rank_printed = [loaded, loading], saved = Some df\<rparr>)
            | Inl e \<Rightarrow>
                if e = ImportError then
                  Inr \<lparr>rank_printed =
                         [loaded, loading, ''Error: Sentence Transformers not installed.'',
                          ''To install: pip install sentence-transformers''],
                       saved = None\<rparr>
                else Inl e))"

text \<open>The loop of \<^verbatim>\<open>process_multiple_queries\<close> over the queries: one column each.\<close>

fun add_query_columns :: "st_model \<Rightarrow> string list \<Rightarrow> string list \<Rightarrow> dataframe \<Rightarrow> dataframe" where
  "add_query_columns model job_texts [] df = df"
| "add_query_columns model job_texts (query # queries) df =
     add_query_columns model job_texts queries
       (set_column (column_name query)
          (map Score (calculate_match_probabilities model job_texts query)) df)"

definition probability_cols :: "dataframe \<Rightarrow> string list" where
  "probability_cols df = filter (\<lambda>col. startswith col ''match_probability_'') (df_columns df)"

text \<open>The table \<^verbatim>\<open>process_multiple_queries\<close> builds: the column of each query, the average of
  the columns whose name starts with \<^verbatim>\<open>match_probability_\<close>, the rows sorted by it.\<close>

definition rank_multiple :: "st_model \<Rightarrow> pydict list \<Rightarrow> string list \<Rightarrow> exn + dataframe" where
  "rank_multiple model jobs queries =
     (let df = add_query_columns model (create_job_texts jobs) queries (DataFrame jobs)
      in case row_means (rounding model) (probability_cols df) (df_rows df) of
           Inl e \<Rightarrow> Inl e
         | Inr means \<Rightarrow>
             Inr (sort_values_desc ''average_match_probability''
                    (set_column ''average_match_probability'' means df)))"

definition process_multiple_queries ::
  "st_library \<Rightarrow> pydict list \<Rightarrow> string list \<Rightarrow> string \<Rightarrow> string option
     \<Rightarrow> exn + rank_outcome" where
  "process_multiple_queries library jobs queries input_file output_file =
     (if jobs = [] then
        Inr \<lparr>rank_printed = [''No jobs loaded from '' @ input_file], saved = None\<rparr>
      else
        (let loaded = ''Loaded '' @ str_int (int (length jobs)) @ '' jobs. Processing ''
                        @ str_int (int (length queries)) @ '' queries...'';
             loading = ''Loading sentence transformer model...''
         in case library ''all-MiniLM-L6-v2'' of
              Inr model \<Rightarrow>
                (case rank_multiple model jobs queries of
                   Inl e \<Rightarrow> Inl e
                 | Inr df \<Rightarrow>
                     (case makedirs_output output_file of
                        Inl e \<Rightarrow> Inl e
                      | Inr u \<Rightarrow>
                          Inr \<lparr>rank_printed =
                                 [loaded, loading]
                                 @ map (\<lambda>query. ''Processing query: '' @ [CHR 0x27] @ query
                                                  @ [CHR 0x27])
                                     queries,
                               saved = Some df\<rparr>))
            | Inl e \<Rightarrow>
                if e = ImportError then
                  Inr \<lparr>rank_printed =
                         [loaded, loading, ''Error: Sentence Transformers not installed.'',
                          ''To install: pip install sentence-transformers''],
                       saved = None\<rparr>
                else Inl e))"


section \<open>Notions used in the statements\<close>

text \<open>The fields of a listing record that hold text; \<^verbatim>\<open>page_number\<close> holds an integer.\<close>

definition text_fields :: "string list" where
  "text_fields = [''title'', ''company'', ''location'', ''duration'', ''post_date'',
     ''deadline'', ''field'', ''url'']"

text \<open>A record as the scraper builds it: the text fields hold strings, \<^verbatim>\<open>page_number\<close> an
  integer, no value is \<^verbatim>\<open>None\<close>, and every value but the page number is a string.\<close>

definition well_formed :: "pydict \<Rightarrow> bool" where
  "well_formed t =
     ((\<forall>k \<in> set text_fields. \<exists>v. map_of t k = Some (Str v))
      \<and> (\<exists>n. map_of t ''page_number'' = Some (Num n))
      \<and> (\<forall>k v. map_of t k = Some v \<longrightarrow> v \<noteq> PyNone \<and> (k \<noteq> ''page_number'' \<longrightarrow> is_str v)))"

text \<open>\<^verbatim>\<open>scrape_all\<close> processes exactly the pages \<open>pages\<close>, in that order: it returns, and what
  it returns is the results of the loop body for these pages, one after the other.\<close>

definition processes_pages :: "scraper \<Rightarrow> int option \<Rightarrow> bool \<Rightarrow> int list \<Rightarrow> bool" where
  "processes_pages s max_pages get_details pages =
     (\<exists>per_page. scrape_all s max_pages get_details = Inr (concat per_page)
        \<and> map Inr per_page = map (page_result s get_details) pages)"

text \<open>The fields \<^verbatim>\<open>keyword_matching\<close> reads of a job.\<close>

definition keyword_fields :: "string list" where
  "keyword_fields = [''title'', ''company'', ''field'', ''description'']"

text \<open>
  A list is ranked by a score when an element with a higher score stands before every
  element with a lower one. An element may have no score (a row whose cell is \<^verbatim>\<open>NaN\<close>).
\<close>

definition ranked_by :: "('a \<Rightarrow> real option) \<Rightarrow> 'a list \<Rightarrow> bool" where
  "ranked_by score xs =
     (\<forall>i j a b. i < length xs \<and> j < length xs \<and> score (xs ! i) = Some a
        \<and> score (xs ! j) = Some b \<and> b < a \<longrightarrow> i < j)"

text \<open>The score of a job for a query, and the row of a job after the loop of
  \<^verbatim>\<open>process_multiple_queries\<close> has written the score of each query into it.\<close>

definition query_score :: "st_model \<Rightarrow> string \<Rightarrow> pydict \<Rightarrow> real" where
  "query_score model query job = rounding model (similarity model query (create_job_text job))"

definition with_scores :: "st_model \<Rightarrow> string list \<Rightarrow> pydict \<Rightarrow> (string \<Rightarrow> cell) \<Rightarrow> string \<Rightarrow> cell" where
  "with_scores model queries job row =
     fold (\<lambda>query r. r(column_name query := Score (query_score model query job))) queries row"

text \<open>The mean of the scores of a job for the queries, in the floating-point arithmetic of
  the model, and the row of the job in the ranked table: its own fields, its score for
  each query, and that mean as the average.\<close>

definition mean_score :: "st_model \<Rightarrow> string list \<Rightarrow> pydict \<Rightarrow> real" where
  "mean_score model queries job =
     float_mean (rounding model) (map (\<lambda>query. query_score model query job) queries)"


text \<open>The table a ranking returned, or the empty table; for reading examples.\<close>

definition saved_table :: "exn + dataframe \<Rightarrow> dataframe" where
  "saved_table r = (case r of Inr df \<Rightarrow> df | Inl e \<Rightarrow> \<lparr>df_columns = [], df_rows = []\<rparr>)"


section \<open>Example inputs\<close>

text \<open>
  A small site: the index page has a last-page link to \<^verbatim>\<open>page=9\<close>, so ten pages are
  detected; the first two listing pages answer, every other address is unreachable. Each
  listing page holds a fragment with no title and a fragment with a title and a duration of
  3 months; the detail page of the latter gives a duration of 6 months and a description.
\<close>

definition ex_anchor :: elem where
  "ex_anchor = Elem [''  Data Intern ''] (Some ''/traineeship/1'') (\<lambda>selector. [])"

definition ex_duration :: elem where
  "ex_duration = Elem [''Duration:'', '' 3 months ''] None (\<lambda>selector. [])"

definition ex_fragment :: elem where
  "ex_fragment = Elem [] None (\<lambda>selector.
     if selector = ''.field-name-title a, h3.dot-title a'' then [ex_anchor]
     else if selector = ''.field-name-field-traineeship-duration .field-item'' then [ex_duration]
     else [])"

definition ex_untitled :: elem where
  "ex_untitled = Elem [''no link here''] None (\<lambda>selector. [])"

definition ex_listing_page :: elem where
  "ex_listing_page = Elem [] None (\<lambda>selector.
     if selector = ''.media-list-items'' then [ex_untitled, ex_fragment] else [])"

definition ex_detail_page :: elem where
  "ex_detail_page = Elem [] None (\<lambda>selector.
     if selector = ''.field-name-field-duration .field-item, .duration''
     then [Elem [''6 months''] None (\<lambda>selector. [])]
     else if selector = ''.field-name-body .field-item, .description''
     then [Elem [''About: '', ''work with data ''] None (\<lambda>selector. [])]
     else [])"

definition ex_index_page :: elem where
  "ex_index_page = Elem [] None (\<lambda>selector.
     if selector = ''.pager-last a''
     then [Elem [''last''] (Some ''/traineeships?page=9'') (\<lambda>selector. [])]
     else [])"

text \<open>An index page whose last-page link ends in the separator \<^verbatim>\<open>0x1C\<close>, which
  \<^verbatim>\<open>str.strip()\<close> drops and \<^verbatim>\<open>int\<close> does not accept.\<close>

definition ex_separator_index :: elem where
  "ex_separator_index = Elem [] None (\<lambda>selector.
     if selector = ''.pager-last a''
     then [Elem [''last''] (Some (''/traineeships?page=5'' @ [CHR 0x1C])) (\<lambda>selector. [])]
     else [])"

definition ex_site :: scraper where
  "ex_site =
     \<lparr>base_url = ''https://erasmusintern.org/traineeships'',
      session_get = (\<lambda>url.
        if url = ''https://erasmusintern.org/traineeships''
        then Inr \<lparr>status_code = 200, soup = ex_index_page\<rparr>
        else if url = ''https://erasmusintern.org/traineeships?page=0''
        then Inr \<lparr>status_code = 200, soup = ex_listing_page\<rparr>
        else if url = ''https://erasmusintern.org/traineeships?page=1''
        then Inr \<lparr>status_code = 200, soup = ex_listing_page\<rparr>
        else if url = ''https://erasmusintern.org/traineeship/1''
        then Inr \<lparr>status_code = 200, soup = ex_detail_page\<rparr>
        else Inl ConnectionError)\<rparr>"

definition ex_record :: "int \<Rightarrow> pydict" where
  "ex_record page_num =
     [(''title'', Str ''Data Intern''), (''company'', Str NOT_SPECIFIED),
      (''location'', Str NOT_SPECIFIED), (''duration'', Str ''3 months''),
      (''post_date'', Str NOT_SPECIFIED), (''deadline'', Str NOT_SPECIFIED),
      (''field'', Str NOT_SPECIFIED),
      (''url'', Str ''https://erasmusintern.org/traineeship/1''),
      (''page_number'', Num page_num)]"

definition ex_detailed :: "int \<Rightarrow> pydict" where
  "ex_detailed page_num = ex_record page_num @ [(''description'', Str ''work with data'')]"

text \<open>
  A listing page with two more fragments before the one above: one whose title link has
  no \<^verbatim>\<open>href\<close> attribute, and one with a title, a link, and a deadline container in which
  neither selector of the deadline matches. The site answers every address with this page.
\<close>

definition ex_bare_anchor :: elem where
  "ex_bare_anchor = Elem [''Ghost Intern''] None (\<lambda>selector. [])"

definition ex_nohref :: elem where
  "ex_nohref = Elem [] None (\<lambda>selector.
     if selector = ''.field-name-title a, h3.dot-title a'' then [ex_bare_anchor] else [])"

definition ex_no_deadline :: elem where
  "ex_no_deadline = Elem [] None (\<lambda>selector.
     if selector = ''h3.title a, .media-body a''
     then [Elem [''Lab Intern''] (Some ''https://example.org/lab'') (\<lambda>selector. [])]
     else if selector = ''.ds-top-footer .field-name-field-traineeship-apply-deadline''
     then [Elem [''Deadline: soon''] None (\<lambda>selector. [])]
     else [])"

definition ex_lab_record :: "int \<Rightarrow> pydict" where
  "ex_lab_record page_num =
     [(''title'', Str ''Lab Intern''), (''company'', Str NOT_SPECIFIED),
      (''location'', Str NOT_SPECIFIED), (''duration'', Str NOT_SPECIFIED),
      (''post_date'', Str NOT_SPECIFIED), (''deadline'', Str NOT_SPECIFIED),
      (''field'', Str NOT_SPECIFIED), (''url'', Str ''https://example.org/lab''),
      (''page_number'', Num page_num)]"

definition ex_mixed_page :: elem where
  "ex_mixed_page = Elem [] None (\<lambda>selector.
     if selector = ''.media-list-items'' then [ex_nohref, ex_no_deadline, ex_fragment] else [])"

definition ex_mixed_site :: scraper where
  "ex_mixed_site =
     \<lparr>base_url = ''https://erasmusintern.org/traineeships'',
      session_get = (\<lambda>url. Inr \<lparr>status_code = 200, soup = ex_mixed_page\<rparr>)\<rparr>"

text \<open>The same site with the network down: every request raises a connection error.\<close>

definition ex_offline :: scraper where
  "ex_offline =
     \<lparr>base_url = ''https://erasmusintern.org/traineeships'',
      session_get = (\<lambda>url. Inl ConnectionError)\<rparr>"

text \<open>
  Two jobs for the search, three jobs A, B and C for the ranking, a library whose model
  cannot be loaded, and a model: for the query \<^verbatim>\<open>rank\<close> it scores A, B and C with 0.2, 0.9 and
  0.5; it scores every job with 0.4 for the queries \<^verbatim>\<open>a b\<close> and \<^verbatim>\<open>first\<close> and with 0.8 for
  any other query. Its scores are Python floats; the second model has the same
  similarities and exact arithmetic, for comparison.
\<close>

definition ex_job_python :: pydict where
  "ex_job_python = [(''title'', Str ''Python Developer''), (''company'', Str ''Acme''),
     (''field'', Str ''IT''), (''description'', Str ''Build web services'')]"

definition ex_job_cook :: pydict where
  "ex_job_cook = [(''title'', Str ''Cook''), (''company'', Str ''Bistro''),
     (''field'', Str ''Food''), (''description'', Str ''Kitchen work'')]"


definition ex_no_library :: st_library where
  "ex_no_library = (\<lambda>name. Inl ImportError)"

definition ex_similarity :: "string \<Rightarrow> string \<Rightarrow> real" where
  "ex_similarity query jtext =
     (if query = ''rank'' then
        (if py_in ''Title: A.'' jtext then 2 / 10
         else if py_in ''Title: B.'' jtext then 9 / 10 else 5 / 10)
      else if query = ''a b'' \<or> query = ''first'' then 4 / 10
      else 8 / 10)"

definition ex_model :: st_model where
  "ex_model = Model ex_similarity binary64"


definition ex_jobs_abc :: "pydict list" where
  "ex_jobs_abc = [[(''title'', Str ''A'')], [(''title'', Str ''B'')], [(''title'', Str ''C'')]]"


definition ex_search_args :: search_args where
  "ex_search_args = \<lparr>args_query = ''python data'', args_results = 5, args_method = Transformer\<rparr>"

section \<open>Properties of the detail merge\<close>

lemma merge_details_keeps:
  "map_of result k = Some v \<Longrightarrow> v \<noteq> Str NOT_SPECIFIED \<Longrightarrow>
   map_of (merge_details details result) k = Some v"
proof (induction details arbitrary: result)
  case Nil
  then show ?case by simp
next
  case (Cons kv details)
  obtain key w where kv: "kv = (key, w)" by (cases kv)
  show ?case
  proof (cases "map_of result key = None \<or> map_of result key = Some (Str NOT_SPECIFIED)")
    case True
    with Cons.prems have "key \<noteq> k" by auto
    with Cons.prems have "map_of (AList.update key (Str w) result) k = Some v"
      by (simp add: update_conv')
    from Cons.IH [OF this Cons.prems(2)] True kv show ?thesis by simp
  next
    case False
    with Cons.IH [OF Cons.prems] kv show ?thesis by auto
  qed
qed

lemma get_traineeship_details_cases:
  "get_traineeship_details s t = Inr r \<Longrightarrow> r = t \<or> (\<exists>details. r = merge_details details t)"
  by (auto simp: get_traineeship_details_def split: option.splits sum.splits)

lemma get_traineeship_details_keeps:
  assumes "get_traineeship_details s t = Inr r" and "map_of t k = Some v"
    and "v \<noteq> Str NOT_SPECIFIED"
  shows "map_of r k = Some v"
proof -
  from assms(1) have "r = t \<or> (\<exists>details. r = merge_details details t)"
    by (rule get_traineeship_details_cases)
  with assms(2,3) show ?thesis
    by (auto simp: merge_details_keeps)
qed

lemma get_traineeship_details_returns:
  "map_of t ''url'' \<noteq> None \<Longrightarrow> map_of t ''title'' \<noteq> None \<Longrightarrow>
   \<exists>r. get_traineeship_details s t = Inr r"
  by (auto simp: get_traineeship_details_def split: option.splits sum.splits)

text \<open>
  Claim C1. Whatever the session answers for the detail page, a field that the record
  given to \<^verbatim>\<open>get_traineeship_details\<close> holds with a value other than the sentinel
  "Not specified" has the same value in the record returned; a field whose value differs
  in the record returned was absent or held the sentinel. The function returns a record for every
  traineeship with a \<^verbatim>\<open>url\<close> and a \<^verbatim>\<open>title\<close>, as every listing record has.
\<close>

theorem detail_merge_keeps_real_values:
  "(\<forall>r k v. get_traineeship_details s t = Inr r \<and> map_of t k = Some v
        \<and> v \<noteq> Str NOT_SPECIFIED \<longrightarrow> map_of r k = Some v)
   \<and> (\<forall>r k. get_traineeship_details s t = Inr r \<and> map_of r k \<noteq> map_of t k \<longrightarrow>
          map_of t k = None \<or> map_of t k = Some (Str NOT_SPECIFIED))
   \<and> (map_of t ''url'' \<noteq> None \<and> map_of t ''title'' \<noteq> None \<longrightarrow>
          (\<exists>r. get_traineeship_details s t = Inr r))"
proof (intro conjI allI impI)
  fix r k v
  assume a: "get_traineeship_details s t = Inr r \<and> map_of t k = Some v
    \<and> v \<noteq> Str NOT_SPECIFIED"
  then show "map_of r k = Some v"
    using get_traineeship_details_keeps by blast
next
  fix r k
  assume a: "get_traineeship_details s t = Inr r \<and> map_of r k \<noteq> map_of t k"
  show "map_of t k = None \<or> map_of t k = Some (Str NOT_SPECIFIED)"
  proof (rule ccontr)
    assume "\<not> (map_of t k = None \<or> map_of t k = Some (Str NOT_SPECIFIED))"
    then obtain v where "map_of t k = Some v" "v \<noteq> Str NOT_SPECIFIED"
      by auto
    with a have "map_of r k = map_of t k"
      using get_traineeship_details_keeps by metis
    with a show False by simp
  qed
next
  assume "map_of t ''url'' \<noteq> None \<and> map_of t ''title'' \<noteq> None"
  then show "\<exists>r. get_traineeship_details s t = Inr r"
    by (simp add: get_traineeship_details_returns)
qed

text \<open>The example of the specification: the record holds a duration of 3 months, the
  detail page says 6 months, and the merged record keeps 3 months.\<close>

lemma ex_detail_page_duration:
  "detail_value ex_detail_page ''duration'' ''.field-name-field-duration .field-item, .duration''
     = ''6 months''"
  by code_simp

lemma ex_details_merged: "get_traineeship_details ex_site (ex_record 1) = Inr (ex_detailed 1)"
  by code_simp

theorem detail_merge_keeps_real_values_witness:
  "map_of (ex_record 1) ''duration'' = Some (Str ''3 months'')
   \<and> Str ''3 months'' \<noteq> Str NOT_SPECIFIED
   \<and> detail_value ex_detail_page ''duration''
        ''.field-name-field-duration .field-item, .duration'' = ''6 months''
   \<and> get_traineeship_details ex_site (ex_record 1) = Inr (ex_detailed 1)
   \<and> map_of (ex_detailed 1) ''duration'' = Some (Str ''3 months'')"
proof -
  have a: "map_of (ex_record 1) ''duration'' = Some (Str ''3 months'')"
    by (simp add: ex_record_def)
  have b: "Str ''3 months'' \<noteq> Str NOT_SPECIFIED"
    by simp
  from detail_merge_keeps_real_values [of ex_site "ex_record 1"] a b ex_details_merged
  have "map_of (ex_detailed 1) ''duration'' = Some (Str ''3 months'')"
    by blast
  with a b ex_detail_page_duration ex_details_merged show ?thesis
    by blast
qed


section \<open>Properties of the crawl\<close>

lemma extract_traineeship_well_formed:
  "extract_traineeship page_num c = Inr (Some t) \<Longrightarrow> well_formed t"
  by (auto simp: extract_traineeship_def well_formed_def text_fields_def is_str_def Let_def
      split: option.splits if_splits)

lemma listing_records_well_formed:
  "t \<in> set (listing_records page_num cs) \<Longrightarrow> well_formed t"
  by (induction cs) (auto split: sum.splits option.splits dest: extract_traineeship_well_formed)

lemma scrape_listings_well_formed:
  "t \<in> set (scrape_traineeship_listings s page_num) \<Longrightarrow> well_formed t"
  by (auto simp: scrape_traineeship_listings_def split: sum.splits dest: listing_records_well_formed)

lemma well_formed_update:
  assumes "well_formed t" and "map_of t key = None \<or> map_of t key = Some (Str NOT_SPECIFIED)"
  shows "well_formed (AList.update key (Str w) t)"
proof -
  from assms have "key \<noteq> ''page_number''" by (auto simp: well_formed_def)
  with assms(1) show ?thesis
    by (auto simp: well_formed_def update_conv' is_str_def)
qed

lemma merge_details_well_formed:
  "well_formed t \<Longrightarrow> well_formed (merge_details details t)"
proof (induction details arbitrary: t)
  case Nil
  then show ?case by simp
next
  case (Cons kv details)
  obtain key w where kv: "kv = (key, w)" by (cases kv)
  show ?case
  proof (cases "map_of t key = None \<or> map_of t key = Some (Str NOT_SPECIFIED)")
    case True
    with Cons.prems have "well_formed (AList.update key (Str w) t)"
      by (rule well_formed_update)
    from Cons.IH [OF this] True kv show ?thesis by simp
  next
    case False
    with Cons.IH [OF Cons.prems] kv show ?thesis by auto
  qed
qed

lemma get_traineeship_details_well_formed:
  "well_formed t \<Longrightarrow> get_traineeship_details s t = Inr r \<Longrightarrow> well_formed r"
  by (auto dest!: get_traineeship_details_cases simp: merge_details_well_formed)

lemma well_formed_returns:
  "well_formed t \<Longrightarrow> \<exists>r. get_traineeship_details s t = Inr r"
  by (rule get_traineeship_details_returns) (auto simp: well_formed_def text_fields_def)

lemma details_of_page_well_formed:
  "\<forall>t \<in> set ts. well_formed t \<Longrightarrow>
   \<exists>ds. details_of_page s ts = Inr ds \<and> (\<forall>d \<in> set ds. well_formed d)"
proof (induction ts)
  case Nil
  then show ?case by simp
next
  case (Cons t ts)
  then obtain ds where ds: "details_of_page s ts = Inr ds" "\<forall>d \<in> set ds. well_formed d"
    by auto
  from Cons.prems have wf: "well_formed t" by simp
  then obtain r where r: "get_traineeship_details s t = Inr r"
    using well_formed_returns by blast
  with wf have "well_formed r" by (rule get_traineeship_details_well_formed)
  with ds r show ?case by simp
qed

lemma page_result_well_formed:
  "\<exists>ts. page_result s get_details page = Inr ts \<and> (\<forall>t \<in> set ts. well_formed t)"
proof (cases "get_details \<and> scrape_traineeship_listings s page \<noteq> []")
  case True
  have "\<forall>t \<in> set (scrape_traineeship_listings s page). well_formed t"
    by (simp add: scrape_listings_well_formed)
  from details_of_page_well_formed [OF this] True show ?thesis
    by (simp add: page_result_def)
next
  case False
  then show ?thesis
    by (auto simp: page_result_def Let_def scrape_listings_well_formed)
qed

lemma scrape_pages_concat:
  "\<exists>per_page. scrape_pages s get_details pages acc = Inr (acc @ concat per_page)
     \<and> map Inr per_page = map (page_result s get_details) pages
     \<and> (\<forall>ts \<in> set per_page. \<forall>t \<in> set ts. well_formed t)"
proof (induction pages arbitrary: acc)
  case Nil
  show ?case by (rule exI [of _ "[]"]) simp
next
  case (Cons page pages)
  obtain ts where ts: "page_result s get_details page = Inr ts" "\<forall>t \<in> set ts. well_formed t"
    using page_result_well_formed by blast
  from Cons.IH [of "acc @ ts"] obtain rest where rest:
    "scrape_pages s get_details pages (acc @ ts) = Inr ((acc @ ts) @ concat rest)"
    "map Inr rest = map (page_result s get_details) pages"
    "\<forall>ts \<in> set rest. \<forall>t \<in> set ts. well_formed t"
    by blast
  show ?case
    by (rule exI [of _ "ts # rest"]) (use ts rest in simp)
qed

lemma scrape_all_effective:
  assumes "get_total_pages s = Inr N"
  shows "processes_pages s max_pages get_details [1..effective_pages N max_pages]"
proof -
  from scrape_pages_concat [of s get_details "[1..effective_pages N max_pages]" "[]"]
  show ?thesis using assms
    by (auto simp: processes_pages_def scrape_all_def)
qed

text \<open>
  Claim C5. With \<open>N\<close> the number of pages \<^verbatim>\<open>get_total_pages\<close> detects, \<^verbatim>\<open>scrape_all\<close> with a
  page cap \<open>C > 0\<close> processes exactly the pages 1 to \<open>min N C\<close> in increasing order, and
  with a cap of 0 or with no cap exactly the pages 1 to \<open>N\<close>: it returns the results of
  the loop body for these pages, concatenated in that order.
\<close>

theorem pagination_range:
  assumes "get_total_pages s = Inr N"
  shows "(0 < C \<longrightarrow> processes_pages s (Some C) get_details [1..min N C])
         \<and> processes_pages s (Some 0) get_details [1..N]
         \<and> processes_pages s None get_details [1..N]"
  using scrape_all_effective [OF assms, of "Some C" get_details]
    scrape_all_effective [OF assms, of "Some 0" get_details]
    scrape_all_effective [OF assms, of None get_details]
  by (auto simp: effective_pages_def)

text \<open>The example of the specification: ten pages detected and a cap of 3 give the pages
  1, 2 and 3. On the example site the third page is unreachable and adds nothing.\<close>

lemma ex_total: "get_total_pages ex_site = Inr 10"
  by code_simp

lemma ex_crawl: "scrape_all ex_site (Some 3) False = Inr [ex_record 1, ex_record 2]"
  by code_simp

lemma ex_pages: "map (page_result ex_site False) [1, 2, 3] = [Inr [ex_record 1], Inr [ex_record 2], Inr []]"
  by code_simp

theorem pagination_range_witness:
  "get_total_pages ex_site = Inr 10 \<and> (0::int) < 3
   \<and> processes_pages ex_site (Some 3) False [1, 2, 3]
   \<and> map (page_result ex_site False) [1, 2, 3] = [Inr [ex_record 1], Inr [ex_record 2], Inr []]
   \<and> scrape_all ex_site (Some 3) False = Inr [ex_record 1, ex_record 2]"
proof -
  have "[1..min 10 3] = [1, 2, (3::int)]"
    by (simp add: upto.simps)
  with pagination_range [OF ex_total, of 3 False] have "processes_pages ex_site (Some 3) False [1, 2, 3]"
    by simp
  with ex_total ex_crawl ex_pages show ?thesis by simp
qed

text \<open>
  Claim C2. A failure of the fetch of a listing page or of a detail page is caught where it
  happens. The fetch of the index page in \<^verbatim>\<open>get_total_pages\<close> stands before the \<^verbatim>\<open>try\<close>:
  with the network down the connection error leaves \<^verbatim>\<open>get_total_pages\<close> and \<^verbatim>\<open>scrape_all\<close>, and
  the scrape command saves nothing, while the listing fetch on the same site gives the
  empty list and the detail fetch gives the record back.
\<close>

theorem pager_fetch_failure_propagates:
  "get_total_pages ex_offline = Inl (RequestException ConnectionError)
   \<and> scrape_all ex_offline (Some 0) True = Inl (RequestException ConnectionError)
   \<and> scrape_command ex_offline (Some 0) 0 False = None
   \<and> scrape_traineeship_listings ex_offline 1 = []
   \<and> get_traineeship_details ex_offline (ex_record 1) = Inr (ex_record 1)"
  by code_simp

text \<open>The page number of a link is read as \<^verbatim>\<open>int\<close> reads it: white space around the digits
  is accepted, the separator \<^verbatim>\<open>0x1C\<close> is not, and then a single page is assumed.\<close>

lemma ex_page_numbers:
  "py_int '' 9 '' = Some 9"
  "py_int (''5'' @ [CHR 0x1C]) = None"
  "py_strip (''5'' @ [CHR 0x1C]) = ''5''"
  "total_pages_try ex_separator_index = Inl ValueError"
  "total_pages_try ex_index_page = Inr 10"
  by (code_simp, code_simp, code_simp, code_simp, code_simp)

section \<open>Properties of the persisted records\<close>

lemma map_of_clean_nulls:
  "map_of (clean_nulls t) k =
     map_option (\<lambda>v. if v = PyNone then Str NOT_SPECIFIED else v) (map_of t k)"
  unfolding clean_nulls_def by (simp add: map_of_map)

lemma clean_nulls_no_none: "map_of (clean_nulls t) k \<noteq> Some PyNone"
proof (cases "map_of t k")
  case None
  then show ?thesis by (simp add: map_of_clean_nulls)
next
  case (Some v)
  then show ?thesis by (cases "v = PyNone") (simp_all add: map_of_clean_nulls)
qed










section \<open>Properties of the listing page\<close>

lemma listing_records_append:
  "listing_records p (cs1 @ cs2) = listing_records p cs1 @ listing_records p cs2"
  by (induction cs1) (auto split: sum.splits option.splits)

lemma untitled_no_record: "extract_title_elem c = None \<Longrightarrow> extract_traineeship p c = Inr None"
  by (simp add: extract_traineeship_def)

lemma listing_records_filter:
  "listing_records p cs = listing_records p (filter (\<lambda>c. extract_title_elem c \<noteq> None) cs)"
  by (induction cs) (auto simp: untitled_no_record split: sum.splits option.splits)

lemma first_labelled_none:
  "\<forall>selector \<in> set selectors. select_one c selector = None \<Longrightarrow>
   first_labelled label c selectors = NOT_SPECIFIED"
  by (induction selectors) auto

lemma extract_traineeship_fields:
  assumes "extract_traineeship p c = Inr (Some t)"
  shows "map_of t ''company'' = Some (Str (extract_company c))"
    and "map_of t ''location'' = Some (Str (extract_location c))"
    and "map_of t ''duration'' = Some (Str (first_labelled ''Duration:'' c duration_selectors))"
    and "map_of t ''post_date'' = Some (Str (first_labelled ''Post date:'' c post_date_selectors))"
    and "map_of t ''deadline'' = Some (Str (extract_deadline c))"
    and "map_of t ''field'' = Some (Str (extract_field c))"
    and "map_of t ''page_number'' = Some (Num p)"
  using assms
  by (auto simp: extract_traineeship_def Let_def split: option.splits if_splits)

lemma titled_record:
  assumes "extract_title_elem c = Some title_elem" and "el_href title_elem = Some href"
  shows "\<exists>t. extract_traineeship p c = Inr (Some t) \<and> listing_records p [c] = [t]
           \<and> map_of t ''title'' = Some (Str (text_strip title_elem))
           \<and> map_of t ''url'' =
               Some (Str (if startswith href ''http'' then href
                          else ''https://erasmusintern.org'' @ href))"
  using assms by (simp add: extract_traineeship_def Let_def)

lemma no_href_no_record:
  assumes "extract_title_elem c = Some title_elem" and "el_href title_elem = None"
  shows "extract_traineeship p c = Inl (KeyError ''href'')" and "listing_records p [c] = []"
  using assms by (simp_all add: extract_traineeship_def)

lemma listing_records_concat:
  "listing_records p cs = concat (map (\<lambda>c. listing_records p [c]) cs)"
  by (induction cs) (auto split: sum.splits option.splits)

lemma listing_page_records:
  assumes "session_get s (listing_url s p) = Inr response"
    and "raise_for_status response = Inr ()"
  shows "scrape_traineeship_listings s p = listing_records p (listing_containers (soup response))"
  using assms by (simp add: scrape_traineeship_listings_def)

lemma listing_page_failure:
  "session_get s (listing_url s p) = Inl e \<Longrightarrow> scrape_traineeship_listings s p = []"
  "session_get s (listing_url s p) = Inr response \<Longrightarrow> raise_for_status response = Inl e' \<Longrightarrow>
   scrape_traineeship_listings s p = []"
  by (simp_all add: scrape_traineeship_listings_def)

lemma deadline_items_none:
  assumes "select_one c ''.ds-top-footer .field-name-field-traineeship-apply-deadline''
             = Some deadline_container"
    and "select_one deadline_container ''.field-items .field-item .date-display-single'' = None"
    and "select_one deadline_container ''.field-items .field-item'' = None"
  shows "extract_deadline c = NOT_SPECIFIED"
  using assms by (simp add: extract_deadline_def)

text \<open>
  Claim C7, as amended. A fragment in which no title selector matches gives no record, and
  neither does a fragment whose title link has no \<^verbatim>\<open>href\<close> attribute: reading the attribute
  raises \<^verbatim>\<open>KeyError\<close>, which the handler of the loop catches. A fragment whose title link
  has an \<^verbatim>\<open>href\<close> gives exactly one record, with the text of the link as its title. The
  records of a listing page that answers are the records of its fragments, in order, each
  fragment processed on its own; a page that does not answer gives none. In the record of
  a fragment each field other than the title whose selectors match nothing holds exactly
  "Not specified", whatever the other fields hold; so does the deadline when its container
  matches and neither of the selectors inside it does.
\<close>

theorem fragments_without_title:
  "(extract_title_elem c = None \<longrightarrow> extract_traineeship p c = Inr None \<and> listing_records p [c] = [])
   \<and> (\<forall>title_elem. extract_title_elem c = Some title_elem \<and> el_href title_elem = None \<longrightarrow>
        extract_traineeship p c = Inl (KeyError ''href'') \<and> listing_records p [c] = [])
   \<and> (\<forall>title_elem href. extract_title_elem c = Some title_elem \<and> el_href title_elem = Some href \<longrightarrow>
        (\<exists>t. extract_traineeship p c = Inr (Some t) \<and> listing_records p [c] = [t]
           \<and> map_of t ''title'' = Some (Str (text_strip title_elem))))
   \<and> listing_records p cs = concat (map (\<lambda>c. listing_records p [c]) cs)
   \<and> listing_records p cs = listing_records p (filter (\<lambda>c. extract_title_elem c \<noteq> None) cs)
   \<and> listing_records p (cs1 @ cs2) = listing_records p cs1 @ listing_records p cs2
   \<and> (\<forall>response. session_get s (listing_url s p) = Inr response
          \<and> raise_for_status response = Inr () \<longrightarrow>
        scrape_traineeship_listings s p
          = concat (map (\<lambda>c. listing_records p [c]) (listing_containers (soup response))))
   \<and> (\<forall>e. session_get s (listing_url s p) = Inl e \<longrightarrow> scrape_traineeship_listings s p = [])
   \<and> (\<forall>response e. session_get s (listing_url s p) = Inr response
          \<and> raise_for_status response = Inl e \<longrightarrow> scrape_traineeship_listings s p = [])
   \<and> (\<forall>t. extract_traineeship p c = Inr (Some t) \<longrightarrow>
        (select_one c ''.field-name-recruiter-name .field-item a'' = None \<longrightarrow>
           map_of t ''company'' = Some (Str NOT_SPECIFIED))
        \<and> (select_one c ''.field-name-field-traineeship-location-count .field-item'' = None \<longrightarrow>
             map_of t ''location'' = Some (Str NOT_SPECIFIED))
        \<and> ((\<forall>selector \<in> set duration_selectors. select_one c selector = None) \<longrightarrow>
             map_of t ''duration'' = Some (Str NOT_SPECIFIED))
        \<and> ((\<forall>selector \<in> set post_date_selectors. select_one c selector = None) \<longrightarrow>
             map_of t ''post_date'' = Some (Str NOT_SPECIFIED))
        \<and> (select_one c ''.ds-top-footer .field-name-field-traineeship-apply-deadline'' = None \<longrightarrow>
             map_of t ''deadline'' = Some (Str NOT_SPECIFIED))
        \<and> (\<forall>deadline_container.
              select_one c ''.ds-top-footer .field-name-field-traineeship-apply-deadline''
                = Some deadline_container
              \<and> select_one deadline_container ''.field-items .field-item .date-display-single''
                  = None
              \<and> select_one deadline_container ''.field-items .field-item'' = None \<longrightarrow>
              map_of t ''deadline'' = Some (Str NOT_SPECIFIED))
        \<and> (select_one c ''.ds-top-content h5'' = None \<longrightarrow>
             map_of t ''field'' = Some (Str NOT_SPECIFIED)))"
proof (intro conjI allI impI)
  show "listing_records p cs = concat (map (\<lambda>c. listing_records p [c]) cs)"
    by (rule listing_records_concat)
  show "listing_records p cs = listing_records p (filter (\<lambda>c. extract_title_elem c \<noteq> None) cs)"
    by (rule listing_records_filter)
  show "listing_records p (cs1 @ cs2) = listing_records p cs1 @ listing_records p cs2"
    by (rule listing_records_append)
next
  assume "extract_title_elem c = None"
  then show "extract_traineeship p c = Inr None"
    by (rule untitled_no_record)
next
  assume "extract_title_elem c = None"
  then show "listing_records p [c] = []"
    by (simp add: untitled_no_record)
next
  fix title_elem
  assume "extract_title_elem c = Some title_elem \<and> el_href title_elem = None"
  then show "extract_traineeship p c = Inl (KeyError ''href'')"
    using no_href_no_record(1) by blast
next
  fix title_elem
  assume "extract_title_elem c = Some title_elem \<and> el_href title_elem = None"
  then show "listing_records p [c] = []"
    using no_href_no_record(2) by blast
next
  fix title_elem href
  assume "extract_title_elem c = Some title_elem \<and> el_href title_elem = Some href"
  then have "extract_title_elem c = Some title_elem" and "el_href title_elem = Some href"
    by blast+
  from titled_record [OF this, of p]
  show "\<exists>t. extract_traineeship p c = Inr (Some t) \<and> listing_records p [c] = [t]
           \<and> map_of t ''title'' = Some (Str (text_strip title_elem))"
    by blast
next
  fix response
  assume "session_get s (listing_url s p) = Inr response \<and> raise_for_status response = Inr ()"
  then have "scrape_traineeship_listings s p
      = listing_records p (listing_containers (soup response))"
    using listing_page_records by blast
  then show "scrape_traineeship_listings s p
      = concat (map (\<lambda>c. listing_records p [c]) (listing_containers (soup response)))"
    using listing_records_concat [of p "listing_containers (soup response)"] by simp
next
  fix e
  assume "session_get s (listing_url s p) = Inl e"
  then show "scrape_traineeship_listings s p = []"
    by (rule listing_page_failure(1))
next
  fix response e
  assume "session_get s (listing_url s p) = Inr response \<and> raise_for_status response = Inl e"
  then show "scrape_traineeship_listings s p = []"
    using listing_page_failure(2) by blast
next
  fix t
  assume t: "extract_traineeship p c = Inr (Some t)"
  {
    assume "select_one c ''.field-name-recruiter-name .field-item a'' = None"
    then show "map_of t ''company'' = Some (Str NOT_SPECIFIED)"
      by (simp add: extract_traineeship_fields(1) [OF t] extract_company_def)
  next
    assume "select_one c ''.field-name-field-traineeship-location-count .field-item'' = None"
    then show "map_of t ''location'' = Some (Str NOT_SPECIFIED)"
      by (simp add: extract_traineeship_fields(2) [OF t] extract_location_def)
  next
    assume "\<forall>selector \<in> set duration_selectors. select_one c selector = None"
    then show "map_of t ''duration'' = Some (Str NOT_SPECIFIED)"
      by (simp add: extract_traineeship_fields(3) [OF t] first_labelled_none)
  next
    assume "\<forall>selector \<in> set post_date_selectors. select_one c selector = None"
    then show "map_of t ''post_date'' = Some (Str NOT_SPECIFIED)"
      by (simp add: extract_traineeship_fields(4) [OF t] first_labelled_none)
  next
    assume "select_one c ''.ds-top-footer .field-name-field-traineeship-apply-deadline'' = None"
    then show "map_of t ''deadline'' = Some (Str NOT_SPECIFIED)"
      by (simp add: extract_traineeship_fields(5) [OF t] extract_deadline_def)
  next
    fix deadline_container
    assume "select_one c ''.ds-top-footer .field-name-field-traineeship-apply-deadline''
                = Some deadline_container
              \<and> select_one deadline_container ''.field-items .field-item .date-display-single''
                  = None
              \<and> select_one deadline_container ''.field-items .field-item'' = None"
    then have "extract_deadline c = NOT_SPECIFIED"
      using deadline_items_none by blast
    then show "map_of t ''deadline'' = Some (Str NOT_SPECIFIED)"
      by (simp add: extract_traineeship_fields(5) [OF t])
  next
    assume "select_one c ''.ds-top-content h5'' = None"
    then show "map_of t ''field'' = Some (Str NOT_SPECIFIED)"
      by (simp add: extract_traineeship_fields(6) [OF t] extract_field_def)
  }
qed

lemma ex_untitled_title: "extract_title_elem ex_untitled = None"
  by code_simp

lemma ex_no_deadline_record: "extract_traineeship 1 ex_no_deadline = Inr (Some (ex_lab_record 1))"
  by code_simp

lemma ex_no_deadline_container:
  "map_option el_strings
     (select_one ex_no_deadline ''.ds-top-footer .field-name-field-traineeship-apply-deadline'')
     = Some [''Deadline: soon'']"
  by code_simp

lemma ex_no_deadline_items:
  "select_one (the (select_one ex_no_deadline
       ''.ds-top-footer .field-name-field-traineeship-apply-deadline''))
     ''.field-items .field-item .date-display-single'' = None"
  "select_one (the (select_one ex_no_deadline
       ''.ds-top-footer .field-name-field-traineeship-apply-deadline''))
     ''.field-items .field-item'' = None"
  by (simp_all add: ex_no_deadline_def select_one_def)

lemma ex_mixed_response:
  "session_get ex_mixed_site (listing_url ex_mixed_site 1)
     = Inr \<lparr>status_code = 200, soup = ex_mixed_page\<rparr>"
  "raise_for_status \<lparr>status_code = 200, soup = ex_mixed_page\<rparr> = Inr ()"
  by (simp_all add: ex_mixed_site_def raise_for_status_def)

lemma ex_mixed_containers:
  "listing_containers ex_mixed_page = [ex_nohref, ex_no_deadline, ex_fragment]"
  by (simp add: listing_containers_def ex_mixed_page_def)

lemma ex_mixed_each:
  "listing_records 1 [ex_nohref] = []"
  "listing_records 1 [ex_no_deadline] = [ex_lab_record 1]"
  "listing_records 1 [ex_fragment] = [ex_record 1]"
  by (code_simp, code_simp, code_simp)

text \<open>
  On the example page the fragment without a title and the fragment whose link has no
  \<^verbatim>\<open>href\<close> give no record, the two others give one record each, in the order of the page,
  and the deadline of the fragment whose deadline container holds no item is the sentinel.
\<close>

theorem fragments_without_title_witness:
  "extract_title_elem ex_untitled = None
   \<and> extract_traineeship 1 ex_untitled = Inr None
   \<and> listing_records 1 [ex_untitled] = []
   \<and> scrape_traineeship_listings ex_mixed_site 1 = [ex_lab_record 1, ex_record 1]
   \<and> extract_traineeship 1 ex_no_deadline = Inr (Some (ex_lab_record 1))
   \<and> map_of (ex_lab_record 1) ''deadline'' = Some (Str ''Not specified'')
   \<and> map_of (ex_lab_record 1) ''title'' = Some (Str ''Lab Intern'')"
proof -
  note H = fragments_without_title [of ex_untitled 1]
  from H ex_untitled_title
  have a: "extract_traineeship 1 ex_untitled = Inr None \<and> listing_records 1 [ex_untitled] = []"
    by blast
  from fragments_without_title [of _ 1 _ _ _ ex_mixed_site] ex_mixed_response
  have "scrape_traineeship_listings ex_mixed_site 1
      = concat (map (\<lambda>c. listing_records 1 [c])
          (listing_containers (soup \<lparr>status_code = 200, soup = ex_mixed_page\<rparr>)))"
    by blast
  then have b: "scrape_traineeship_listings ex_mixed_site 1 = [ex_lab_record 1, ex_record 1]"
    by (simp add: ex_mixed_containers ex_mixed_each del: listing_records.simps)
  obtain dc where dc: "select_one ex_no_deadline
      ''.ds-top-footer .field-name-field-traineeship-apply-deadline'' = Some dc"
    using ex_no_deadline_container by (cases "select_one ex_no_deadline
      ''.ds-top-footer .field-name-field-traineeship-apply-deadline''") auto
  with ex_no_deadline_items
  have items: "select_one dc ''.field-items .field-item .date-display-single'' = None"
    "select_one dc ''.field-items .field-item'' = None"
    by simp_all
  from fragments_without_title [of ex_no_deadline 1] ex_no_deadline_record dc items
  have c: "map_of (ex_lab_record 1) ''deadline'' = Some (Str ''Not specified'')"
    by blast
  have d: "map_of (ex_lab_record 1) ''title'' = Some (Str ''Lab Intern'')"
    by (simp add: ex_lab_record_def)
  from a b c d ex_untitled_title ex_no_deadline_record show ?thesis
    by blast
qed

lemma ex_nohref_title:
  "map_option el_strings (extract_title_elem ex_nohref) = Some [''Ghost Intern'']"
  "map_option el_href (extract_title_elem ex_nohref) = Some None"
  by (simp_all add: extract_title_elem_def select_one_def ex_nohref_def ex_bare_anchor_def)

lemma ex_nohref_raises: "extract_traineeship 1 ex_nohref = Inl (KeyError ''href'')"
  by code_simp

lemma ex_mixed_listing:
  "scrape_traineeship_listings ex_mixed_site 1 = [ex_lab_record 1, ex_record 1]"
  using listing_page_records [OF ex_mixed_response]
  by (simp add: ex_mixed_containers ex_mixed_each
      listing_records_concat [of 1 "[ex_nohref, ex_no_deadline, ex_fragment]"]
      del: listing_records.simps)

text \<open>
  The claim as stated fails: the first fragment of the example page has a title, the text
  of its title link is found, and yet it is not processed into a record, because the link
  has no \<^verbatim>\<open>href\<close>: the page of three titled fragments gives two records.
\<close>

theorem titled_fragment_without_href:
  "map_option el_strings (extract_title_elem ex_nohref) = Some [''Ghost Intern'']
   \<and> map_option el_href (extract_title_elem ex_nohref) = Some None
   \<and> extract_traineeship 1 ex_nohref = Inl (KeyError ''href'')
   \<and> listing_records 1 [ex_nohref] = []
   \<and> length (listing_containers ex_mixed_page) = 3
   \<and> scrape_traineeship_listings ex_mixed_site 1 = [ex_lab_record 1, ex_record 1]"
  using ex_nohref_title ex_nohref_raises ex_mixed_each(1) ex_mixed_listing
  by (simp add: ex_mixed_containers)

section \<open>Properties of keyword matching\<close>

lemma job_get_lower_returns:
  "(\<forall>v. map_of job key = Some v \<longrightarrow> is_str v) \<Longrightarrow> \<exists>s. job_get_lower job key = Inr s"
  by (cases "map_of job key") (auto simp: job_get_lower_def is_str_def split: pyval.splits)

lemma job_text_returns:
  assumes "\<forall>key \<in> set keyword_fields. \<forall>v. map_of job key = Some v \<longrightarrow> is_str v"
  shows "\<exists>text. job_text job = Inr text"
proof -
  from assms obtain a where a: "job_get_lower job ''title'' = Inr a"
    using job_get_lower_returns [of job "''title''"] by (auto simp: keyword_fields_def)
  from assms obtain b where b: "job_get_lower job ''company'' = Inr b"
    using job_get_lower_returns [of job "''company''"] by (auto simp: keyword_fields_def)
  from assms obtain c where c: "job_get_lower job ''field'' = Inr c"
    using job_get_lower_returns [of job "''field''"] by (auto simp: keyword_fields_def)
  from assms obtain d where d: "job_get_lower job ''description'' = Inr d"
    using job_get_lower_returns [of job "''description''"] by (auto simp: keyword_fields_def)
  from a b c d show ?thesis by (simp add: job_text_def)
qed

lemma keyword_matches_returns:
  "\<forall>job \<in> set jobs. \<exists>jtext. job_text job = Inr jtext \<Longrightarrow>
   \<exists>matches. keyword_matches query_terms jobs = Inr matches"
proof (induction jobs)
  case Nil
  then show ?case by simp
next
  case (Cons job jobs)
  then obtain jtext matches where "job_text job = Inr jtext"
    "keyword_matches query_terms jobs = Inr matches"
    by auto
  then show ?case by (simp add: Let_def)
qed

lemma keyword_matches_set:
  "keyword_matches query_terms jobs = Inr matches \<Longrightarrow>
   set matches =
     {(job, real (term_hits query_terms jtext) / real (length query_terms)) | job jtext.
        job \<in> set jobs \<and> job_text job = Inr jtext \<and> 0 < term_hits query_terms jtext}"
proof (induction jobs arbitrary: matches)
  case Nil
  then show ?case by simp
next
  case (Cons job jobs)
  from Cons.prems obtain jtext rest where jtext: "job_text job = Inr jtext"
    and rest: "keyword_matches query_terms jobs = Inr rest"
    by (auto simp: Let_def split: sum.splits)
  note IH = Cons.IH [OF rest]
  show ?case
  proof (cases "0 < term_hits query_terms jtext")
    case True
    with Cons.prems jtext rest
    have "matches = (job, real (term_hits query_terms jtext) / real (length query_terms)) # rest"
      by (simp add: Let_def)
    with IH jtext True show ?thesis by auto
  next
    case False
    with Cons.prems jtext rest have "matches = rest"
      by (simp add: Let_def)
    with IH jtext False show ?thesis by auto
  qed
qed

lemma keyword_matches_length:
  "keyword_matches query_terms jobs = Inr matches \<Longrightarrow> length matches \<le> length jobs"
proof (induction jobs arbitrary: matches)
  case Nil
  then show ?case by simp
next
  case (Cons job jobs)
  from Cons.prems obtain jtext rest where jtext: "job_text job = Inr jtext"
    and rest: "keyword_matches query_terms jobs = Inr rest"
    by (auto simp: Let_def split: sum.splits)
  from Cons.IH [OF rest] have "length rest \<le> length jobs" .
  with Cons.prems jtext rest show ?case
    by (auto simp: Let_def split: if_splits)
qed

lemma keyword_matching_cases:
  "keyword_matching jobs query_terms = Inr matches \<Longrightarrow>
   \<exists>ms. keyword_matches (map py_lower query_terms) jobs = Inr ms \<and> matches = sort_desc snd ms"
  by (auto simp: keyword_matching_def split: sum.splits)

lemma set_sort_desc: "set (sort_desc key xs) = set xs"
  by (simp add: sort_desc_def)

lemma length_sort_desc: "length (sort_desc key xs) = length xs"
  by (simp add: sort_desc_def)

lemma term_hits_le: "term_hits query_terms jtext \<le> length query_terms"
  by (simp add: term_hits_def)

lemma fraction_bounds:
  assumes "h \<le> n"
  shows "0 \<le> real h / real n \<and> real h / real n \<le> 1"
proof (cases "n = 0")
  case True
  then show ?thesis by simp
next
  case False
  with assms show ?thesis by (simp add: divide_le_eq)
qed

lemma keyword_matching_set:
  assumes "keyword_matching jobs query_terms = Inr matches"
  shows "set matches =
     {(job, real (term_hits (map py_lower query_terms) jtext) / real (length query_terms)) | job jtext.
        job \<in> set jobs \<and> job_text job = Inr jtext \<and> 0 < term_hits (map py_lower query_terms) jtext}"
proof -
  from keyword_matching_cases [OF assms] obtain ms where
    ms: "keyword_matches (map py_lower query_terms) jobs = Inr ms" "matches = sort_desc snd ms"
    by blast
  from keyword_matches_set [OF ms(1)] ms(2) show ?thesis
    by (simp add: set_sort_desc)
qed

text \<open>
  Claim C4. \<^verbatim>\<open>keyword_matching\<close> returns for jobs whose title, company, field and
  description are strings or missing. Whenever it returns, each pair it returns holds a
  job of the collection and a score that is the number of query terms occurring, in lower
  case, in the lower-case text of the job (title, company, field and description joined by
  spaces), divided by the number of query terms; the score lies between 0 and 1; and every
  job in which at least one term occurs is returned with that score.
\<close>

theorem keyword_score_is_fraction:
  "((\<forall>job \<in> set jobs. \<forall>key \<in> set keyword_fields. \<forall>v. map_of job key = Some v \<longrightarrow> is_str v) \<longrightarrow>
      (\<exists>matches. keyword_matching jobs query_terms = Inr matches))
   \<and> (\<forall>matches. keyword_matching jobs query_terms = Inr matches \<longrightarrow>
        (\<forall>(job, score) \<in> set matches. \<exists>jtext.
            job \<in> set jobs \<and> job_text job = Inr jtext
            \<and> score = real (term_hits (map py_lower query_terms) jtext) / real (length query_terms)
            \<and> 0 \<le> score \<and> score \<le> 1)
        \<and> (\<forall>job jtext. job \<in> set jobs \<and> job_text job = Inr jtext
              \<and> 0 < term_hits (map py_lower query_terms) jtext \<longrightarrow>
              (job, real (term_hits (map py_lower query_terms) jtext) / real (length query_terms))
                \<in> set matches))"
proof (intro conjI allI impI)
  assume "\<forall>job \<in> set jobs. \<forall>key \<in> set keyword_fields. \<forall>v. map_of job key = Some v \<longrightarrow> is_str v"
  then have "\<forall>job \<in> set jobs. \<exists>jtext. job_text job = Inr jtext"
    using job_text_returns by blast
  from keyword_matches_returns [OF this, of "map py_lower query_terms"]
  show "\<exists>matches. keyword_matching jobs query_terms = Inr matches"
    by (auto simp: keyword_matching_def)
next
  fix matches
  assume m: "keyword_matching jobs query_terms = Inr matches"
  note S = keyword_matching_set [OF m]
  show "\<forall>(job, score) \<in> set matches. \<exists>jtext.
            job \<in> set jobs \<and> job_text job = Inr jtext
            \<and> score = real (term_hits (map py_lower query_terms) jtext) / real (length query_terms)
            \<and> 0 \<le> score \<and> score \<le> 1"
  proof (clarify)
    fix job score
    assume "(job, score) \<in> set matches"
    with S obtain jtext where t: "job \<in> set jobs" "job_text job = Inr jtext"
      "score = real (term_hits (map py_lower query_terms) jtext) / real (length query_terms)"
      by auto
    have "term_hits (map py_lower query_terms) jtext \<le> length query_terms"
      using term_hits_le [of "map py_lower query_terms" jtext] by simp
    from fraction_bounds [OF this] t
    show "\<exists>jtext. job \<in> set jobs \<and> job_text job = Inr jtext
            \<and> score = real (term_hits (map py_lower query_terms) jtext) / real (length query_terms)
            \<and> 0 \<le> score \<and> score \<le> 1"
      by blast
  qed
next
  fix matches job jtext
  assume m: "keyword_matching jobs query_terms = Inr matches"
    and "job \<in> set jobs \<and> job_text job = Inr jtext \<and> 0 < term_hits (map py_lower query_terms) jtext"
  with keyword_matching_set [OF m]
  show "(job, real (term_hits (map py_lower query_terms) jtext) / real (length query_terms))
                \<in> set matches"
    by blast
qed

lemma ex_keyword:
  "keyword_matching [ex_job_cook, ex_job_python] (py_words ''python data'')
     = Inr [(ex_job_python, 1 / 2)]"
  by code_simp

lemma ex_python_text: "job_text ex_job_python = Inr ''python developer acme it build web services''"
  by code_simp

lemma ex_words: "py_words ''python data'' = [''python'', ''data'']"
  by code_simp

lemma ex_python_hits:
  "term_hits (map py_lower (py_words ''python data'')) ''python developer acme it build web services'' = 1"
  by code_simp

lemma ex_python_in: "py_in ''python'' ''python developer acme it build web services''"
  by code_simp

lemma ex_data_not_in: "\<not> py_in ''data'' ''python developer acme it build web services''"
  by code_simp

text \<open>
  The example of the specification: for the query "python data" and a job whose text holds
  "python" but not "data" the score is 1/2.
\<close>

theorem keyword_score_is_fraction_witness:
  "keyword_matching [ex_job_cook, ex_job_python] (py_words ''python data'')
     = Inr [(ex_job_python, 1 / 2)]
   \<and> py_words ''python data'' = [''python'', ''data'']
   \<and> job_text ex_job_python = Inr ''python developer acme it build web services''
   \<and> py_in ''python'' ''python developer acme it build web services''
   \<and> \<not> py_in ''data'' ''python developer acme it build web services''
   \<and> (0::real) \<le> 1 / 2 \<and> (1 / 2 :: real) \<le> 1"
proof -
  from keyword_score_is_fraction [of "[ex_job_cook, ex_job_python]" "py_words ''python data''"]
    ex_keyword
  have "\<forall>(job, score) \<in> set [(ex_job_python, 1 / 2 :: real)]. 0 \<le> score \<and> score \<le> 1"
    by fastforce
  then have "(0::real) \<le> 1 / 2 \<and> (1 / 2 :: real) \<le> 1"
    by simp
  with ex_keyword ex_words ex_python_text ex_python_in ex_data_not_in show ?thesis
    by blast
qed

text \<open>
  Claim C10. Every pair \<^verbatim>\<open>keyword_matching\<close> returns has a score above zero; a job in which
  no query term occurs is in no pair returned; so the result is at most as long as the
  collection, and can be shorter.
\<close>

theorem keyword_matching_omits_zero:
  assumes "keyword_matching jobs query_terms = Inr matches"
  shows "(\<forall>(job, score) \<in> set matches. 0 < score)
         \<and> (\<forall>job jtext. job \<in> set jobs \<and> job_text job = Inr jtext
               \<and> term_hits (map py_lower query_terms) jtext = 0 \<longrightarrow> job \<notin> fst ` set matches)
         \<and> length matches \<le> length jobs"
proof (intro conjI allI impI)
  note S = keyword_matching_set [OF assms]
  show "\<forall>(job, score) \<in> set matches. 0 < score"
  proof (clarify)
    fix job score
    assume "(job, score) \<in> set matches"
    with S obtain jtext where
      score: "score = real (term_hits (map py_lower query_terms) jtext) / real (length query_terms)"
      and hits: "0 < term_hits (map py_lower query_terms) jtext"
      by auto
    have "term_hits (map py_lower query_terms) jtext \<le> length query_terms"
      using term_hits_le [of "map py_lower query_terms" jtext] by simp
    with hits have "0 < length query_terms" by linarith
    with hits score show "0 < score" by simp
  qed
next
  fix job jtext
  assume a: "job \<in> set jobs \<and> job_text job = Inr jtext
    \<and> term_hits (map py_lower query_terms) jtext = 0"
  show "job \<notin> fst ` set matches"
  proof
    assume "job \<in> fst ` set matches"
    then obtain score where "(job, score) \<in> set matches" by auto
    with keyword_matching_set [OF assms] obtain jt where
      "job_text job = Inr jt" "0 < term_hits (map py_lower query_terms) jt"
      by auto
    with a show False by simp
  qed
next
  from keyword_matching_cases [OF assms] obtain ms where
    ms: "keyword_matches (map py_lower query_terms) jobs = Inr ms" "matches = sort_desc snd ms"
    by blast
  from keyword_matches_length [OF ms(1)] ms(2) show "length matches \<le> length jobs"
    by (simp add: length_sort_desc)
qed

lemma ex_cook_text: "job_text ex_job_cook = Inr ''cook bistro food kitchen work''"
  by code_simp

lemma ex_cook_hits:
  "term_hits (map py_lower (py_words ''python data'')) ''cook bistro food kitchen work'' = 0"
  by code_simp

text \<open>
  Of two jobs, the one in which neither "python" nor "data" occurs is left out: one pair
  is returned for two jobs.
\<close>

theorem keyword_matching_omits_zero_witness:
  "keyword_matching [ex_job_cook, ex_job_python] (py_words ''python data'')
     = Inr [(ex_job_python, 1 / 2)]
   \<and> job_text ex_job_cook = Inr ''cook bistro food kitchen work''
   \<and> term_hits (map py_lower (py_words ''python data'')) ''cook bistro food kitchen work'' = 0
   \<and> ex_job_cook \<notin> fst ` set [(ex_job_python, 1 / 2 :: real)]
   \<and> length [(ex_job_python, 1 / 2 :: real)] < length [ex_job_cook, ex_job_python]"
proof -
  have "ex_job_cook \<in> set [ex_job_cook, ex_job_python]" by simp
  with keyword_matching_omits_zero [OF ex_keyword] ex_cook_text ex_cook_hits
  have "ex_job_cook \<notin> fst ` set [(ex_job_python, 1 / 2 :: real)]"
    by blast
  with ex_keyword ex_cook_text ex_cook_hits show ?thesis by simp
qed


section \<open>Properties of the ranking\<close>

lemma sort_desc_ranked: "ranked_by (\<lambda>x. Some (key x)) (sort_desc key xs)"
proof -
  let ?ys = "sort_desc key xs"
  have "sorted (map (\<lambda>x. - key x) ?ys)"
    by (simp add: sort_desc_def)
  then have mono: "\<forall>i j. i \<le> j \<longrightarrow> j < length ?ys \<longrightarrow> key (?ys ! j) \<le> key (?ys ! i)"
    by (simp add: sorted_iff_nth_mono del: sorted_map)
  show ?thesis
    unfolding ranked_by_def
  proof (intro allI impI)
    fix i j a b
    assume h: "i < length ?ys \<and> j < length ?ys \<and> Some (key (?ys ! i)) = Some a
      \<and> Some (key (?ys ! j)) = Some b \<and> b < a"
    show "i < j"
    proof (rule ccontr)
      assume "\<not> i < j"
      then have "j \<le> i" by simp
      with mono h have "key (?ys ! i) \<le> key (?ys ! j)" by blast
      with h show False by auto
    qed
  qed
qed

lemma ranked_by_cong:
  assumes "\<forall>x \<in> set xs. score x = score' x" and "ranked_by score xs"
  shows "ranked_by score' xs"
  using assms unfolding ranked_by_def by (metis nth_mem)

lemma ranked_by_append_unscored:
  assumes "ranked_by score xs" and "\<forall>y \<in> set ys. score y = None"
  shows "ranked_by score (xs @ ys)"
  unfolding ranked_by_def
proof (intro allI impI)
  fix i j a b
  assume h: "i < length (xs @ ys) \<and> j < length (xs @ ys) \<and> score ((xs @ ys) ! i) = Some a
    \<and> score ((xs @ ys) ! j) = Some b \<and> b < a"
  have i: "i < length xs"
  proof (rule ccontr)
    assume n: "\<not> i < length xs"
    with h have "i - length xs < length ys" by auto
    then have "ys ! (i - length xs) \<in> set ys" by (rule nth_mem)
    with n have "(xs @ ys) ! i \<in> set ys" by (simp add: nth_append)
    with assms(2) h show False by auto
  qed
  have j: "j < length xs"
  proof (rule ccontr)
    assume n: "\<not> j < length xs"
    with h have "j - length xs < length ys" by auto
    then have "ys ! (j - length xs) \<in> set ys" by (rule nth_mem)
    with n have "(xs @ ys) ! j \<in> set ys" by (simp add: nth_append)
    with assms(2) h show False by auto
  qed
  from i j h have "score (xs ! i) = Some a \<and> score (xs ! j) = Some b \<and> b < a"
    by (simp add: nth_append)
  with assms(1) i j show "i < j"
    unfolding ranked_by_def by blast
qed

lemma sort_values_desc_ranked:
  "ranked_by (\<lambda>row. sort_number (row column)) (df_rows (sort_values_desc column df))"
proof -
  let ?scored = "filter (\<lambda>row. sort_number (row column) \<noteq> None) (df_rows df)"
  let ?key = "\<lambda>row. the (sort_number (row column))"
  have "ranked_by (\<lambda>row. Some (?key row)) (sort_desc ?key ?scored)"
    by (rule sort_desc_ranked)
  moreover have "\<forall>row \<in> set (sort_desc ?key ?scored). Some (?key row) = sort_number (row column)"
    by (auto simp: set_sort_desc)
  ultimately have "ranked_by (\<lambda>row. sort_number (row column)) (sort_desc ?key ?scored)"
    by (rule ranked_by_cong [rotated])
  then have "ranked_by (\<lambda>row. sort_number (row column))
      (sort_desc ?key ?scored @ filter (\<lambda>row. sort_number (row column) = None) (df_rows df))"
    by (rule ranked_by_append_unscored) simp
  then show ?thesis by (simp add: sort_values_desc_def)
qed

lemma sort_values_desc_mset:
  "mset (df_rows (sort_values_desc column df)) = mset (df_rows df)"
  by (simp add: sort_values_desc_def sort_desc_def)


lemma mset_sort_desc: "mset (sort_desc key xs) = mset xs"
  by (simp add: sort_desc_def)

lemma set_column_rows:
  "df_rows df = map g jobs \<Longrightarrow>
   df_rows (set_column c (map h jobs) df) = map (\<lambda>job. (g job)(c := h job)) jobs"
  by (simp add: set_column_def zip_map_map zip_same_conv_map)

lemma set_column_rows_zip:
  "df_rows df = map g jobs \<Longrightarrow>
   df_rows (set_column c vals df) = map (\<lambda>(job, v). (g job)(c := v)) (zip jobs vals)"
  by (simp add: set_column_def zip_map1 case_prod_unfold)

lemma set_column_columns:
  "df_columns (set_column c vals df) =
     (if c \<in> set (df_columns df) then df_columns df else df_columns df @ [c])"
  by (simp add: set_column_def)

lemma set_column_column:
  assumes "length vals = length (df_rows df)"
  shows "df_column (set_column c vals df) c = vals"
proof -
  have "map ((\<lambda>row. row c) \<circ> (\<lambda>(row, v). row(c := v))) (zip (df_rows df) vals)
      = map snd (zip (df_rows df) vals)"
    by (rule map_cong) auto
  with assms show ?thesis
    by (simp add: df_column_def set_column_def)
qed

lemma with_scores_Cons:
  "with_scores model (query # queries) job row =
     with_scores model queries job (row(column_name query := Score (query_score model query job)))"
  by (simp add: with_scores_def)

lemma add_query_columns_rows:
  "df_rows df = map g jobs \<Longrightarrow>
   df_rows (add_query_columns model (create_job_texts jobs) queries df)
     = map (\<lambda>job. with_scores model queries job (g job)) jobs"
proof (induction queries arbitrary: df g)
  case Nil
  then show ?case by (simp add: with_scores_def)
next
  case (Cons query queries)
  let ?h = "\<lambda>job. Score (query_score model query job)"
  let ?df = "set_column (column_name query) (map ?h jobs) df"
  have vals: "map Score (calculate_match_probabilities model (create_job_texts jobs) query)
      = map ?h jobs"
    by (simp add: calculate_match_probabilities_def create_job_texts_def query_score_def)
  from Cons.prems have rows: "df_rows ?df = map (\<lambda>job. (g job)(column_name query := ?h job)) jobs"
    by (rule set_column_rows)
  have step: "add_query_columns model (create_job_texts jobs) (query # queries) df
      = add_query_columns model (create_job_texts jobs) queries ?df"
    by (simp only: add_query_columns.simps vals)
  show ?case
    unfolding step with_scores_Cons by (rule Cons.IH [OF rows])
qed

lemma add_query_columns_columns:
  "distinct (map column_name queries) \<Longrightarrow>
   \<forall>query \<in> set queries. column_name query \<notin> set (df_columns df) \<Longrightarrow>
   df_columns (add_query_columns model texts queries df)
     = df_columns df @ map column_name queries"
proof (induction queries arbitrary: df)
  case Nil
  then show ?case by simp
next
  case (Cons query queries)
  let ?df = "set_column (column_name query)
      (map Score (calculate_match_probabilities model texts query)) df"
  from Cons.prems have cols: "df_columns ?df = df_columns df @ [column_name query]"
    by (simp add: set_column_columns)
  from Cons.prems have "distinct (map column_name queries)" by simp
  moreover have "\<forall>q \<in> set queries. column_name q \<notin> set (df_columns ?df)"
  proof
    fix q
    assume q: "q \<in> set queries"
    then have "column_name q \<in> column_name ` set queries" by (rule imageI)
    moreover from Cons.prems(1) have "column_name query \<notin> column_name ` set queries" by simp
    ultimately have "column_name q \<noteq> column_name query" by metis
    moreover from q Cons.prems(2) have "column_name q \<notin> set (df_columns df)" by simp
    ultimately show "column_name q \<notin> set (df_columns ?df)"
      unfolding cols by simp
  qed
  ultimately have "df_columns (add_query_columns model texts queries ?df)
      = df_columns ?df @ map column_name queries"
    by (rule Cons.IH)
  with cols show ?case by simp
qed

lemma add_query_columns_keeps:
  "c \<in> set (df_columns df) \<Longrightarrow> c \<in> set (df_columns (add_query_columns model texts queries df))"
  by (induction queries arbitrary: df) (simp_all add: set_column_columns)

lemma add_query_columns_has:
  "query \<in> set queries \<Longrightarrow>
   column_name query \<in> set (df_columns (add_query_columns model texts queries df))"
proof (induction queries arbitrary: df)
  case Nil
  then show ?case by simp
next
  case (Cons q queries)
  let ?df = "set_column (column_name q)
      (map Score (calculate_match_probabilities model texts q)) df"
  show ?case
  proof (cases "query \<in> set queries")
    case True
    then have "column_name query \<in> set (df_columns (add_query_columns model texts queries ?df))"
      by (rule Cons.IH)
    then show ?thesis by simp
  next
    case False
    with Cons.prems have "query = q" by simp
    then have "column_name query \<in> set (df_columns ?df)"
      by (simp add: set_column_columns)
    then have "column_name query \<in> set (df_columns (add_query_columns model texts queries ?df))"
      by (rule add_query_columns_keeps)
    then show ?thesis by simp
  qed
qed

lemma with_scores_other:
  "c \<notin> column_name ` set queries \<Longrightarrow> with_scores model queries job row c = row c"
  by (induction queries arbitrary: row) (simp_all add: with_scores_def)

lemma with_scores_query:
  "distinct (map column_name queries) \<Longrightarrow> query \<in> set queries \<Longrightarrow>
   with_scores model queries job row (column_name query) = Score (query_score model query job)"
proof (induction queries arbitrary: row)
  case Nil
  then show ?case by simp
next
  case (Cons q queries)
  show ?case
  proof (cases "query \<in> set queries")
    case True
    with Cons.prems Cons.IH show ?thesis
      by (simp add: with_scores_Cons)
  next
    case False
    with Cons.prems have q: "q = query" by simp
    from Cons.prems q have "column_name query \<notin> column_name ` set queries" by simp
    then show ?thesis
      by (simp add: with_scores_Cons q with_scores_other)
  qed
qed

lemma with_scores_keeps_score:
  "row c = Score x \<Longrightarrow> \<exists>y. with_scores model queries job row c = Score y"
proof (induction queries arbitrary: row x)
  case Nil
  then show ?case by (simp add: with_scores_def)
next
  case (Cons q queries)
  let ?row = "row(column_name q := Score (query_score model q job))"
  from Cons.prems have "\<exists>z. ?row c = Score z" by simp
  then obtain z where "?row c = Score z" by blast
  then have "\<exists>y. with_scores model queries job ?row c = Score y"
    by (rule Cons.IH)
  then show ?case by (simp only: with_scores_Cons)
qed

lemma with_scores_scored:
  "query \<in> set queries \<Longrightarrow> \<exists>y. with_scores model queries job row (column_name query) = Score y"
proof (induction queries arbitrary: row)
  case Nil
  then show ?case by simp
next
  case (Cons q queries)
  let ?row = "row(column_name q := Score (query_score model q job))"
  show ?case
  proof (cases "query \<in> set queries")
    case True
    then have "\<exists>y. with_scores model queries job ?row (column_name query) = Score y"
      by (rule Cons.IH)
    then show ?thesis by (simp only: with_scores_Cons)
  next
    case False
    with Cons.prems have "query = q" by simp
    then have "?row (column_name query) = Score (query_score model q job)" by simp
    then have "\<exists>y. with_scores model queries job ?row (column_name query) = Score y"
      by (rule with_scores_keeps_score)
    then show ?thesis by (simp only: with_scores_Cons)
  qed
qed

lemma startswith_append: "startswith (p @ s) p"
  by (induction p) simp_all

lemma column_name_prefix: "startswith (column_name query) ''match_probability_''"
  unfolding column_name_def by (rule startswith_append)


lemma set_first_seen: "set (first_seen xs) = set xs"
  by (simp add: first_seen_def)

lemma DataFrame_rows: "df_rows (DataFrame jobs) = map job_row jobs"
  by (simp add: DataFrame_def)

lemma DataFrame_columns:
  "set (df_columns (DataFrame jobs)) = (\<Union>job \<in> set jobs. fst ` set job)"
  by (auto simp: DataFrame_def set_first_seen)

lemma cell_numbers_scores: "cell_numbers (map (\<lambda>q. Score (f q)) queries) = Inr (map f queries)"
  by (induction queries) (simp_all add: cell_number_def)

lemma cell_numbers_nonempty:
  "cell_numbers cs = Inr xs \<Longrightarrow> Score x \<in> set cs \<Longrightarrow> xs \<noteq> []"
proof (induction cs arbitrary: xs)
  case Nil
  then show ?case by simp
next
  case (Cons c cs)
  from Cons.prems(1) obtain n ys where n: "cell_number c = Inr n"
    and ys: "cell_numbers cs = Inr ys"
    and xs: "xs = (case n of None \<Rightarrow> ys | Some r \<Rightarrow> r # ys)"
    by (auto split: sum.splits)
  show ?case
  proof (cases "c = Score x")
    case True
    with n have "n = Some x" by (simp add: cell_number_def)
    with xs show ?thesis by simp
  next
    case False
    with Cons.prems(2) have "Score x \<in> set cs" by simp
    with ys have "ys \<noteq> []" by (rule Cons.IH)
    with xs show ?thesis by (cases n) simp_all
  qed
qed

lemma row_mean_scored:
  assumes "row_mean fl cols row = Inr m" and "c \<in> set cols" and "row c = Score x"
  shows "\<exists>y. m = Score y"
proof -
  from assms(1) obtain xs where xs: "cell_numbers (map row cols) = Inr xs"
    and m: "m = (if xs = [] then NaN else Score (float_mean fl xs))"
    by (auto simp: row_mean_def split: sum.splits)
  from assms(2,3) have "Score x \<in> set (map row cols)" by force
  with xs have "xs \<noteq> []" by (rule cell_numbers_nonempty)
  with m show ?thesis by simp
qed

lemma row_means_all2:
  "row_means fl cols rows = Inr ms \<Longrightarrow>
   list_all2 (\<lambda>row m. row_mean fl cols row = Inr m) rows ms"
  by (induction rows arbitrary: ms) (auto split: sum.splits)

lemma row_means_map:
  "\<forall>job \<in> set jobs. row_mean fl cols (h job) = Inr (m job) \<Longrightarrow>
   row_means fl cols (map h jobs) = Inr (map m jobs)"
  by (induction jobs) simp_all

lemma row_mean_with_scores:
  assumes "distinct (map column_name queries)" and "queries \<noteq> []"
  shows "row_mean (rounding model) (map column_name queries) (with_scores model queries job row)
     = Inr (Score (mean_score model queries job))"
proof -
  have "map (with_scores model queries job row) (map column_name queries)
      = map (\<lambda>q. Score (query_score model q job)) queries"
    using assms(1) by (simp add: with_scores_query)
  then have num: "cell_numbers (map (with_scores model queries job row) (map column_name queries))
      = Inr (map (\<lambda>q. query_score model q job) queries)"
    by (simp only: cell_numbers_scores)
  show ?thesis
    unfolding row_mean_def num using assms(2) by (simp add: mean_score_def)
qed

lemma fresh_columns:
  assumes "\<forall>job \<in> set jobs. \<forall>key \<in> fst ` set job. \<not> startswith key ''match_probability_''"
  shows "\<forall>c \<in> set (df_columns (DataFrame jobs)). \<not> startswith c ''match_probability_''"
  using assms unfolding DataFrame_columns by blast

lemma rank_multiple_table:
  assumes fresh: "\<forall>job \<in> set jobs. \<forall>key \<in> fst ` set job. \<not> startswith key ''match_probability_''"
    and dist: "distinct (map column_name queries)"
    and ne: "queries \<noteq> []"
  shows "probability_cols (add_query_columns model (create_job_texts jobs) queries (DataFrame jobs))
           = map column_name queries"
    and "rank_multiple model jobs queries =
           Inr (sort_values_desc ''average_match_probability''
                 (set_column ''average_match_probability''
                    (map (\<lambda>job. Score (mean_score model queries job)) jobs)
                    (add_query_columns model (create_job_texts jobs) queries (DataFrame jobs))))"
proof -
  let ?df = "add_query_columns model (create_job_texts jobs) queries (DataFrame jobs)"
  note old = fresh_columns [OF fresh]
  have "\<forall>query \<in> set queries. column_name query \<notin> set (df_columns (DataFrame jobs))"
    using old column_name_prefix by blast
  with dist have cols: "df_columns ?df = df_columns (DataFrame jobs) @ map column_name queries"
    by (rule add_query_columns_columns)
  have a: "filter (\<lambda>col. startswith col ''match_probability_'') (df_columns (DataFrame jobs)) = []"
    using old by (simp add: filter_empty_conv)
  have b: "filter (\<lambda>col. startswith col ''match_probability_'') (map column_name queries)
      = map column_name queries"
    by (simp add: filter_id_conv column_name_prefix)
  show pc: "probability_cols ?df = map column_name queries"
    unfolding probability_cols_def cols filter_append a b by simp
  have rows: "df_rows ?df = map (\<lambda>job. with_scores model queries job (job_row job)) jobs"
    using DataFrame_rows by (rule add_query_columns_rows)
  have "row_means (rounding model) (map column_name queries)
          (map (\<lambda>job. with_scores model queries job (job_row job)) jobs)
        = Inr (map (\<lambda>job. Score (mean_score model queries job)) jobs)"
    by (rule row_means_map) (simp add: row_mean_with_scores [OF dist ne])
  then show "rank_multiple model jobs queries =
           Inr (sort_values_desc ''average_match_probability''
                 (set_column ''average_match_probability''
                    (map (\<lambda>job. Score (mean_score model queries job)) jobs) ?df))"
    unfolding rank_multiple_def Let_def pc rows by simp
qed

lemma rank_multiple_cases:
  assumes "rank_multiple model jobs queries = Inr df"
  shows "\<exists>means.
           row_means (rounding model)
             (probability_cols
                (add_query_columns model (create_job_texts jobs) queries (DataFrame jobs)))
             (df_rows (add_query_columns model (create_job_texts jobs) queries (DataFrame jobs)))
             = Inr means
           \<and> df = sort_values_desc ''average_match_probability''
                    (set_column ''average_match_probability'' means
                       (add_query_columns model (create_job_texts jobs) queries
                          (DataFrame jobs)))"
  using assms by (auto simp: rank_multiple_def Let_def split: sum.splits)

lemma save_to_csv_cases:
  assumes "save_to_csv jobs probs query output_file = Inr df"
  shows "length probs = length jobs"
    and "makedirs_output output_file = Inr ()"
    and "df = sort_values_desc (column_name query)
                (set_column (column_name query) (map Score probs) (DataFrame jobs))"
  using assms by (auto simp: save_to_csv_def split: if_splits sum.splits)

lemma save_to_csv_returns:
  assumes "length probs = length jobs" and "makedirs_output output_file = Inr ()"
  shows "save_to_csv jobs probs query output_file =
           Inr (sort_values_desc (column_name query)
                  (set_column (column_name query) (map Score probs) (DataFrame jobs)))"
  using assms by (simp add: save_to_csv_def)

lemma makedirs_output_cases:
  "makedirs_output output_file = Inr () \<or> makedirs_output output_file = Inl FileNotFoundError"
  by (simp add: makedirs_output_def split: option.splits)

lemma process_query_saved:
  assumes "process_query library jobs query input_file output_file model_name = Inr outcome"
    and "saved outcome = Some df"
  shows "\<exists>model. library model_name = Inr model
           \<and> save_to_csv jobs (calculate_match_probabilities model (create_job_texts jobs) query)
                 query output_file = Inr df"
proof (cases "jobs = []")
  case True
  with assms show ?thesis
    unfolding process_query_def by auto
next
  case False
  show ?thesis
  proof (cases "library model_name")
    case (Inl e)
    with False assms show ?thesis
      unfolding process_query_def Let_def by (auto split: if_splits)
  next
    case (Inr model)
    show ?thesis
    proof (cases "save_to_csv jobs
        (calculate_match_probabilities model (create_job_texts jobs) query) query output_file")
      case (Inl e)
      with False Inr assms show ?thesis
        unfolding process_query_def Let_def by simp
    next
      case inner: (Inr df')
      with False Inr assms(1) have "outcome = \<lparr>rank_printed =
          [''Loaded '' @ str_int (int (length jobs))
             @ '' jobs. Calculating match probabilities for: '' @ [CHR 0x27] @ query @ [CHR 0x27],
           ''Loading sentence transformer model '' @ [CHR 0x27] @ model_name @ [CHR 0x27]
             @ ''...''], saved = Some df'\<rparr>"
        unfolding process_query_def Let_def by simp
      with assms(2) have "df' = df" by simp
      with Inr inner show ?thesis by simp
    qed
  qed
qed

lemma process_multiple_queries_saved:
  assumes "process_multiple_queries library jobs queries input_file output_file = Inr outcome"
    and "saved outcome = Some df"
  shows "\<exists>model. library ''all-MiniLM-L6-v2'' = Inr model
           \<and> rank_multiple model jobs queries = Inr df"
proof (cases "jobs = []")
  case True
  with assms show ?thesis
    unfolding process_multiple_queries_def by auto
next
  case False
  show ?thesis
  proof (cases "library ''all-MiniLM-L6-v2''")
    case (Inl e)
    with False assms show ?thesis
      unfolding process_multiple_queries_def Let_def by (auto split: if_splits)
  next
    case (Inr model)
    show ?thesis
    proof (cases "rank_multiple model jobs queries")
      case (Inl e)
      with False Inr assms show ?thesis
        unfolding process_multiple_queries_def Let_def by simp
    next
      case inner: (Inr df')
      show ?thesis
      proof (cases "makedirs_output output_file")
        case (Inl e)
        with False Inr inner assms show ?thesis
          unfolding process_multiple_queries_def Let_def by simp
      next
        case path: (Inr u)
        with False Inr inner assms(1) have "saved outcome = Some df'"
          unfolding process_multiple_queries_def Let_def by auto
        with assms(2) have "df' = df" by simp
        with Inr inner show ?thesis by simp
      qed
    qed
  qed
qed

lemma not_average_prefix: "\<not> startswith ''average_match_probability'' ''match_probability_''"
  by simp







lemma ex_two_queries_titles:
  "df_column (saved_table (rank_multiple ex_model ex_jobs_abc [''first'', ''second''])) ''title''
     = [Val (Str ''A''), Val (Str ''B''), Val (Str ''C'')]"
  by code_simp













lemma save_rows:
  "df_rows (set_column c (map Score probs) (DataFrame jobs))
     = map (\<lambda>(job, p). (job_row job)(c := Score p)) (zip jobs probs)"
proof -
  have "df_rows (set_column c (map Score probs) (DataFrame jobs))
      = map (\<lambda>(job, v). (job_row job)(c := v)) (zip jobs (map Score probs))"
    using DataFrame_rows by (rule set_column_rows_zip)
  also have "\<dots> = map (\<lambda>(job, p). (job_row job)(c := Score p)) (zip jobs probs)"
    by (simp add: zip_map2 case_prod_unfold)
  finally show ?thesis .
qed

lemma rank_multiple_scored:
  assumes means: "row_means (rounding model)
        (probability_cols
           (add_query_columns model (create_job_texts jobs) queries (DataFrame jobs)))
        (df_rows (add_query_columns model (create_job_texts jobs) queries (DataFrame jobs)))
        = Inr means"
    and ne: "queries \<noteq> []"
    and row: "row \<in> set (df_rows (set_column ''average_match_probability'' means
        (add_query_columns model (create_job_texts jobs) queries (DataFrame jobs))))"
  shows "sort_number (row ''average_match_probability'') \<noteq> None"
proof -
  let ?avg = "''average_match_probability''"
  let ?df1 = "add_query_columns model (create_job_texts jobs) queries (DataFrame jobs)"
  from ne obtain q where q: "q \<in> set queries"
    by (cases queries) auto
  have col: "column_name q \<in> set (probability_cols ?df1)"
    using add_query_columns_has [OF q] by (simp add: probability_cols_def column_name_prefix)
  have rows1: "df_rows ?df1 = map (\<lambda>job. with_scores model queries job (job_row job)) jobs"
    using DataFrame_rows by (rule add_query_columns_rows)
  from row obtain r v where rv: "(r, v) \<in> set (zip (df_rows ?df1) means)"
    and row_eq: "row = r(?avg := v)"
    by (auto simp: set_column_def)
  from means have "list_all2 (\<lambda>row m. row_mean (rounding model) (probability_cols ?df1) row = Inr m)
      (df_rows ?df1) means"
    by (rule row_means_all2)
  with rv have mean: "row_mean (rounding model) (probability_cols ?df1) r = Inr v"
    by (auto simp: list_all2_iff)
  from rv have "r \<in> set (df_rows ?df1)"
    by (rule set_zip_leftD)
  with rows1 obtain job where "r = with_scores model queries job (job_row job)"
    by auto
  with with_scores_scored [OF q, of model job "job_row job"]
  obtain x where "r (column_name q) = Score x"
    by auto
  with mean col obtain y where "v = Score y"
    using row_mean_scored by blast
  with row_eq show ?thesis
    by (simp add: sort_number_def)
qed

text \<open>
  Claim C8. The output of each ranking holds the records with their scores, in descending
  order of the score: an element with a higher score stands before every element with a
  lower one.

  The pairs \<^verbatim>\<open>keyword_matching\<close> returns are the scored pairs it collected, each once, ordered
  by the score. The rows of the table \<^verbatim>\<open>save_to_csv\<close> writes for one query are the rows of
  the jobs, each with the score given for it in the column of the query, every row once,
  ordered by that column; the function returns when there is a score for each job and the
  directory of the output file can be made. The rows of the table
  \<^verbatim>\<open>process_multiple_queries\<close> builds are the rows of the jobs with the scores of the
  queries, each with its mean as the average, every row once, ordered by the average, which
  is a number in every row when there is a query. The tables \<^verbatim>\<open>process_query\<close> and
  \<^verbatim>\<open>process_multiple_queries\<close> save are these tables.
\<close>

theorem ranked_output:
  "(\<forall>matches. keyword_matching jobs query_terms = Inr matches \<longrightarrow>
       (\<exists>ms. keyword_matches (map py_lower query_terms) jobs = Inr ms \<and> mset matches = mset ms)
       \<and> ranked_by (\<lambda>m. Some (snd m)) matches)
   \<and> (\<forall>df. save_to_csv jobs probs query output_file = Inr df \<longrightarrow>
        length probs = length jobs
        \<and> mset (df_rows df)
            = mset (map (\<lambda>(job, p). (job_row job)(column_name query := Score p)) (zip jobs probs))
        \<and> (\<forall>row \<in> set (df_rows df). sort_number (row (column_name query)) \<noteq> None)
        \<and> ranked_by (\<lambda>row. sort_number (row (column_name query))) (df_rows df))
   \<and> (length probs = length jobs \<and> makedirs_output output_file = Inr () \<longrightarrow>
        (\<exists>df. save_to_csv jobs probs query output_file = Inr df))
   \<and> (\<forall>df. rank_multiple model jobs queries = Inr df \<longrightarrow>
        (\<exists>means.
            row_means (rounding model)
              (probability_cols
                 (add_query_columns model (create_job_texts jobs) queries (DataFrame jobs)))
              (map (\<lambda>job. with_scores model queries job (job_row job)) jobs) = Inr means
            \<and> length means = length jobs
            \<and> mset (df_rows df)
                = mset (map (\<lambda>(job, m). (with_scores model queries job (job_row job))
                                 (''average_match_probability'' := m)) (zip jobs means)))
        \<and> (queries \<noteq> [] \<longrightarrow>
             (\<forall>row \<in> set (df_rows df). sort_number (row ''average_match_probability'') \<noteq> None))
        \<and> ranked_by (\<lambda>row. sort_number (row ''average_match_probability'')) (df_rows df))
   \<and> (\<forall>outcome df.
         process_query library jobs query input_file output_file model_name = Inr outcome
         \<and> saved outcome = Some df \<longrightarrow>
         (\<exists>loaded. library model_name = Inr loaded
            \<and> save_to_csv jobs
                 (calculate_match_probabilities loaded (create_job_texts jobs) query)
                 query output_file = Inr df))
   \<and> (\<forall>outcome df.
         process_multiple_queries library jobs queries input_file output_file = Inr outcome
         \<and> saved outcome = Some df \<longrightarrow>
         (\<exists>loaded. library ''all-MiniLM-L6-v2'' = Inr loaded
            \<and> rank_multiple loaded jobs queries = Inr df))"
proof -
  let ?avg = "''average_match_probability''"
  let ?col = "column_name query"
  let ?df1 = "add_query_columns model (create_job_texts jobs) queries (DataFrame jobs)"
  have keyword: "\<forall>matches. keyword_matching jobs query_terms = Inr matches \<longrightarrow>
       (\<exists>ms. keyword_matches (map py_lower query_terms) jobs = Inr ms \<and> mset matches = mset ms)
       \<and> ranked_by (\<lambda>m. Some (snd m)) matches"
  proof (intro allI impI)
    fix matches
    assume "keyword_matching jobs query_terms = Inr matches"
    then obtain ms where ms: "keyword_matches (map py_lower query_terms) jobs = Inr ms"
      and sorted: "matches = sort_desc snd ms"
      using keyword_matching_cases by blast
    from sorted have "mset matches = mset ms"
      by (simp add: mset_sort_desc)
    with ms have "\<exists>ms. keyword_matches (map py_lower query_terms) jobs = Inr ms
        \<and> mset matches = mset ms"
      by blast
    moreover from sorted have "ranked_by (\<lambda>m. Some (snd m)) matches"
      by (simp add: sort_desc_ranked)
    ultimately show "(\<exists>ms. keyword_matches (map py_lower query_terms) jobs = Inr ms
          \<and> mset matches = mset ms)
        \<and> ranked_by (\<lambda>m. Some (snd m)) matches"
      by (rule conjI)
  qed
  have single: "\<forall>df. save_to_csv jobs probs query output_file = Inr df \<longrightarrow>
        length probs = length jobs
        \<and> mset (df_rows df)
            = mset (map (\<lambda>(job, p). (job_row job)(?col := Score p)) (zip jobs probs))
        \<and> (\<forall>row \<in> set (df_rows df). sort_number (row ?col) \<noteq> None)
        \<and> ranked_by (\<lambda>row. sort_number (row ?col)) (df_rows df)"
  proof (intro allI impI)
    fix df
    assume run: "save_to_csv jobs probs query output_file = Inr df"
    note S = save_to_csv_cases [OF run]
    have m: "mset (df_rows df)
        = mset (map (\<lambda>(job, p). (job_row job)(?col := Score p)) (zip jobs probs))"
      unfolding S(3) sort_values_desc_mset save_rows ..
    have scored: "\<forall>row \<in> set (df_rows df). sort_number (row ?col) \<noteq> None"
    proof
      fix row
      assume "row \<in> set (df_rows df)"
      then have "row \<in># mset (df_rows df)" by simp
      then have "row \<in> set (map (\<lambda>(job, p). (job_row job)(?col := Score p)) (zip jobs probs))"
        unfolding m by simp
      then obtain job p where "row = (job_row job)(?col := Score p)"
        by auto
      then show "sort_number (row ?col) \<noteq> None"
        by (simp add: sort_number_def)
    qed
    have r: "ranked_by (\<lambda>row. sort_number (row ?col)) (df_rows df)"
      unfolding S(3) by (rule sort_values_desc_ranked)
    show "length probs = length jobs
        \<and> mset (df_rows df)
            = mset (map (\<lambda>(job, p). (job_row job)(?col := Score p)) (zip jobs probs))
        \<and> (\<forall>row \<in> set (df_rows df). sort_number (row ?col) \<noteq> None)
        \<and> ranked_by (\<lambda>row. sort_number (row ?col)) (df_rows df)"
      by (intro conjI) (rule S(1), rule m, rule scored, rule r)
  qed
  have returns: "length probs = length jobs \<and> makedirs_output output_file = Inr () \<longrightarrow>
        (\<exists>df. save_to_csv jobs probs query output_file = Inr df)"
    using save_to_csv_returns by blast
  have multiple: "\<forall>df. rank_multiple model jobs queries = Inr df \<longrightarrow>
        (\<exists>means.
            row_means (rounding model) (probability_cols ?df1)
              (map (\<lambda>job. with_scores model queries job (job_row job)) jobs) = Inr means
            \<and> length means = length jobs
            \<and> mset (df_rows df)
                = mset (map (\<lambda>(job, m). (with_scores model queries job (job_row job))
                                 (?avg := m)) (zip jobs means)))
        \<and> (queries \<noteq> [] \<longrightarrow>
             (\<forall>row \<in> set (df_rows df). sort_number (row ?avg) \<noteq> None))
        \<and> ranked_by (\<lambda>row. sort_number (row ?avg)) (df_rows df)"
  proof (intro allI impI)
    fix df
    assume run: "rank_multiple model jobs queries = Inr df"
    from rank_multiple_cases [OF run] obtain means where
      means: "row_means (rounding model) (probability_cols ?df1) (df_rows ?df1) = Inr means"
      and df: "df = sort_values_desc ?avg (set_column ?avg means ?df1)"
      by blast
    have rows1: "df_rows ?df1 = map (\<lambda>job. with_scores model queries job (job_row job)) jobs"
      using DataFrame_rows by (rule add_query_columns_rows)
    from means have means': "row_means (rounding model) (probability_cols ?df1)
        (map (\<lambda>job. with_scores model queries job (job_row job)) jobs) = Inr means"
      unfolding rows1 .
    from means have "list_all2 (\<lambda>row m. row_mean (rounding model) (probability_cols ?df1) row = Inr m)
        (df_rows ?df1) means"
      by (rule row_means_all2)
    then have "length (df_rows ?df1) = length means"
      by (rule list_all2_lengthD)
    with rows1 have len: "length means = length jobs"
      by simp
    have rows2: "df_rows (set_column ?avg means ?df1)
        = map (\<lambda>(job, m). (with_scores model queries job (job_row job))(?avg := m))
            (zip jobs means)"
      using rows1 by (rule set_column_rows_zip)
    have m: "mset (df_rows df)
        = mset (map (\<lambda>(job, m). (with_scores model queries job (job_row job))(?avg := m))
            (zip jobs means))"
      unfolding df sort_values_desc_mset rows2 ..
    have table: "\<exists>means.
            row_means (rounding model) (probability_cols ?df1)
              (map (\<lambda>job. with_scores model queries job (job_row job)) jobs) = Inr means
            \<and> length means = length jobs
            \<and> mset (df_rows df)
                = mset (map (\<lambda>(job, m). (with_scores model queries job (job_row job))
                                 (?avg := m)) (zip jobs means))"
      by (rule exI [of _ means]) (intro conjI means' len m)
    have scored: "queries \<noteq> [] \<longrightarrow>
        (\<forall>row \<in> set (df_rows df). sort_number (row ?avg) \<noteq> None)"
    proof (intro impI ballI)
      fix row
      assume ne: "queries \<noteq> []" and "row \<in> set (df_rows df)"
      then have "row \<in># mset (df_rows df)" by simp
      then have "row \<in># mset (df_rows (set_column ?avg means ?df1))"
        unfolding df sort_values_desc_mset .
      then have "row \<in> set (df_rows (set_column ?avg means ?df1))"
        by simp
      with means ne show "sort_number (row ?avg) \<noteq> None"
        by (rule rank_multiple_scored)
    qed
    have r: "ranked_by (\<lambda>row. sort_number (row ?avg)) (df_rows df)"
      unfolding df by (rule sort_values_desc_ranked)
    show "(\<exists>means.
            row_means (rounding model) (probability_cols ?df1)
              (map (\<lambda>job. with_scores model queries job (job_row job)) jobs) = Inr means
            \<and> length means = length jobs
            \<and> mset (df_rows df)
                = mset (map (\<lambda>(job, m). (with_scores model queries job (job_row job))
                                 (?avg := m)) (zip jobs means)))
        \<and> (queries \<noteq> [] \<longrightarrow>
             (\<forall>row \<in> set (df_rows df). sort_number (row ?avg) \<noteq> None))
        \<and> ranked_by (\<lambda>row. sort_number (row ?avg)) (df_rows df)"
      by (intro conjI) (rule table, rule scored, rule r)
  qed
  have one_saved: "\<forall>outcome df.
         process_query library jobs query input_file output_file model_name = Inr outcome
         \<and> saved outcome = Some df \<longrightarrow>
         (\<exists>loaded. library model_name = Inr loaded
            \<and> save_to_csv jobs
                 (calculate_match_probabilities loaded (create_job_texts jobs) query)
                 query output_file = Inr df)"
    using process_query_saved by blast
  have many_saved: "\<forall>outcome df.
         process_multiple_queries library jobs queries input_file output_file = Inr outcome
         \<and> saved outcome = Some df \<longrightarrow>
         (\<exists>loaded. library ''all-MiniLM-L6-v2'' = Inr loaded
            \<and> rank_multiple loaded jobs queries = Inr df)"
    using process_multiple_queries_saved by blast
  show ?thesis
    by (intro conjI) (rule keyword, rule single, rule returns, rule multiple, rule one_saved,
      rule many_saved)
qed

lemma ex_save_returns:
  "\<exists>df. save_to_csv ex_jobs_abc [2 / 10, 9 / 10, 5 / 10] ''rank'' None = Inr df"
  by (simp add: save_to_csv_def makedirs_output_def ex_jobs_abc_def)

lemma ex_ranked_titles:
  "df_column (saved_table (save_to_csv ex_jobs_abc [2 / 10, 9 / 10, 5 / 10] ''rank'' None))
     ''title'' = [Val (Str ''B''), Val (Str ''C''), Val (Str ''A'')]"
  by code_simp

lemma ex_ranked_scores:
  "df_column (saved_table (save_to_csv ex_jobs_abc [2 / 10, 9 / 10, 5 / 10] ''rank'' None))
     ''match_probability_rank'' = [Score (9 / 10), Score (5 / 10), Score (2 / 10)]"
  by code_simp

lemma ex_multiple_returns: "\<exists>df. rank_multiple ex_model ex_jobs_abc [''rank''] = Inr df"
proof -
  have fresh: "\<forall>job \<in> set ex_jobs_abc. \<forall>key \<in> fst ` set job.
      \<not> startswith key ''match_probability_''"
    by (simp add: ex_jobs_abc_def)
  have dist: "distinct (map column_name [''rank''])"
    by simp
  have ne: "[''rank''] \<noteq> ([] :: string list)"
    by simp
  from rank_multiple_table(2) [OF fresh dist ne, of ex_model] show ?thesis
    by blast
qed

lemma ex_multiple_titles:
  "df_column (saved_table (rank_multiple ex_model ex_jobs_abc [''rank''])) ''title''
     = [Val (Str ''B''), Val (Str ''C''), Val (Str ''A'')]"
  by code_simp

lemma ex_multiple_average:
  "df_column (saved_table (rank_multiple ex_model ex_jobs_abc [''rank'']))
     ''average_match_probability''
     = [Score (binary64 (9 / 10)), Score (binary64 (5 / 10)), Score (binary64 (2 / 10))]"
  by code_simp

lemma ex_keyword_order:
  "keyword_matching [ex_job_cook, ex_job_python] (py_words ''python developer work'')
     = Inr [(ex_job_python, 2 / 3), (ex_job_cook, 1 / 3)]"
  by code_simp

lemma ex_no_directory:
  "save_to_csv ex_jobs_abc [2 / 10, 9 / 10, 5 / 10] ''rank'' (Some ''ranked.csv'')
     = Inl FileNotFoundError"
  by (simp add: save_to_csv_def makedirs_output_def dirname_def ex_jobs_abc_def)

text \<open>
  The example of the specification: the scores 0.2, 0.9 and 0.5 of the jobs A, B and C give
  the order B, C, A, in the table for one query and in the table for a list of queries; and
  two jobs in the order of their keyword scores.
\<close>

theorem ranked_output_witness:
  "length [2 / 10, 9 / 10, 5 / 10 :: real] = length ex_jobs_abc
   \<and> makedirs_output None = Inr ()
   \<and> ranked_by (\<lambda>row. sort_number (row (column_name ''rank'')))
        (df_rows (saved_table (save_to_csv ex_jobs_abc [2 / 10, 9 / 10, 5 / 10] ''rank'' None)))
   \<and> df_column (saved_table (save_to_csv ex_jobs_abc [2 / 10, 9 / 10, 5 / 10] ''rank'' None))
         ''title'' = [Val (Str ''B''), Val (Str ''C''), Val (Str ''A'')]
   \<and> df_column (saved_table (save_to_csv ex_jobs_abc [2 / 10, 9 / 10, 5 / 10] ''rank'' None))
         ''match_probability_rank'' = [Score (9 / 10), Score (5 / 10), Score (2 / 10)]
   \<and> ranked_by (\<lambda>row. sort_number (row ''average_match_probability''))
        (df_rows (saved_table (rank_multiple ex_model ex_jobs_abc [''rank''])))
   \<and> length (df_rows (saved_table (rank_multiple ex_model ex_jobs_abc [''rank''])))
       = length ex_jobs_abc
   \<and> df_column (saved_table (rank_multiple ex_model ex_jobs_abc [''rank''])) ''title''
       = [Val (Str ''B''), Val (Str ''C''), Val (Str ''A'')]
   \<and> df_column (saved_table (rank_multiple ex_model ex_jobs_abc [''rank'']))
         ''average_match_probability''
       = [Score (binary64 (9 / 10)), Score (binary64 (5 / 10)), Score (binary64 (2 / 10))]
   \<and> keyword_matching [ex_job_cook, ex_job_python] (py_words ''python developer work'')
       = Inr [(ex_job_python, 2 / 3), (ex_job_cook, 1 / 3)]
   \<and> ranked_by (\<lambda>m. Some (snd m)) [(ex_job_python, 2 / 3 :: real), (ex_job_cook, 1 / 3)]"
proof -
  have len: "length [2 / 10, 9 / 10, 5 / 10 :: real] = length ex_jobs_abc"
    by (simp add: ex_jobs_abc_def)
  have path: "makedirs_output None = Inr ()"
    by (simp add: makedirs_output_def)
  note R = ranked_output [of ex_jobs_abc "[]" "[2 / 10, 9 / 10, 5 / 10]" "''rank''" None
      ex_model "[''rank'']"]
  note single = R [THEN conjunct2, THEN conjunct1]
  note multiple = R [THEN conjunct2, THEN conjunct2, THEN conjunct2, THEN conjunct1]
  from ex_save_returns obtain df where
    df: "save_to_csv ex_jobs_abc [2 / 10, 9 / 10, 5 / 10] ''rank'' None = Inr df"
    by blast
  from single df have "ranked_by (\<lambda>row. sort_number (row (column_name ''rank''))) (df_rows df)"
    by blast
  with df have a: "ranked_by (\<lambda>row. sort_number (row (column_name ''rank'')))
        (df_rows (saved_table (save_to_csv ex_jobs_abc [2 / 10, 9 / 10, 5 / 10] ''rank'' None)))"
    by (simp add: saved_table_def)
  from ex_multiple_returns obtain dfm where
    dfm: "rank_multiple ex_model ex_jobs_abc [''rank''] = Inr dfm"
    by blast
  from multiple dfm
  have ranked: "ranked_by (\<lambda>row. sort_number (row ''average_match_probability'')) (df_rows dfm)"
    by blast
  from multiple dfm obtain means where "length means = length ex_jobs_abc"
    and "mset (df_rows dfm)
      = mset (map (\<lambda>(job, m). (with_scores ex_model [''rank''] job (job_row job))
                       (''average_match_probability'' := m)) (zip ex_jobs_abc means))"
    by blast
  then have "length (df_rows dfm) = length ex_jobs_abc"
    using mset_eq_length by fastforce
  with dfm ranked
  have b: "ranked_by (\<lambda>row. sort_number (row ''average_match_probability''))
        (df_rows (saved_table (rank_multiple ex_model ex_jobs_abc [''rank''])))"
    and c: "length (df_rows (saved_table (rank_multiple ex_model ex_jobs_abc [''rank''])))
       = length ex_jobs_abc"
    by (simp_all add: saved_table_def)
  from ranked_output [of "[ex_job_cook, ex_job_python]" "py_words ''python developer work''",
      THEN conjunct1] ex_keyword_order
  have d: "ranked_by (\<lambda>m. Some (snd m)) [(ex_job_python, 2 / 3 :: real), (ex_job_cook, 1 / 3)]"
    by blast
  show ?thesis
    by (intro conjI) (rule len, rule path, rule a, rule ex_ranked_titles, rule ex_ranked_scores,
      rule b, rule c, rule ex_multiple_titles, rule ex_multiple_average, rule ex_keyword_order,
      rule d)
qed

section \<open>A library that is not installed\<close>

lemma process_query_import_error:
  assumes "jobs \<noteq> []" and "library model_name = Inl ImportError"
  shows "process_query library jobs query input_file output_file model_name =
      Inr \<lparr>rank_printed =
             [''Loaded '' @ str_int (int (length jobs))
                @ '' jobs. Calculating match probabilities for: '' @ [CHR 0x27] @ query @ [CHR 0x27],
              ''Loading sentence transformer model '' @ [CHR 0x27] @ model_name @ [CHR 0x27] @ ''...'']
             @ [''Error: Sentence Transformers not installed.'',
                ''To install: pip install sentence-transformers''],
           saved = None\<rparr>"
  unfolding process_query_def Let_def using assms by simp

lemma process_multiple_queries_import_error:
  assumes "jobs \<noteq> []" and "library ''all-MiniLM-L6-v2'' = Inl ImportError"
  shows "process_multiple_queries library jobs queries input_file output_file =
      Inr \<lparr>rank_printed =
             [''Loaded '' @ str_int (int (length jobs)) @ '' jobs. Processing ''
                @ str_int (int (length queries)) @ '' queries...'',
              ''Loading sentence transformer model...'']
             @ [''Error: Sentence Transformers not installed.'',
                ''To install: pip install sentence-transformers''],
           saved = None\<rparr>"
  unfolding process_multiple_queries_def Let_def using assms by simp

lemma search_main_import_error:
  assumes "jobs \<noteq> []" and "library ''all-MiniLM-L6-v2'' = Inl ImportError"
    and "args_method args = Transformer"
    and "keyword_matching jobs (py_words (args_query args)) = Inr matches"
  shows "search_main library jobs args =
      Inr \<lparr>printed =
             [''Loaded '' @ str_int (int (length jobs)) @ '' jobs. Searching for: ''
                @ [CHR 0x27] @ args_query args @ [CHR 0x27],
              ''Loading sentence transformer model (this may take a moment)...'']
             @ [''Sentence Transformers not installed. Falling back to keyword matching.'',
                ''To install: pip install sentence-transformers''],
           found = py_take (args_results args) matches\<rparr>"
  unfolding search_main_def Let_def using assms by simp

text \<open>
  Claim C3, as amended. When loading the model raises \<^verbatim>\<open>ImportError\<close>, \<^verbatim>\<open>process_query\<close> and
  \<^verbatim>\<open>process_multiple_queries\<close> print that the library is not installed and how to install
  it, and save no table: no score of any kind is computed. \<^verbatim>\<open>main\<close> of search.py, called with
  the transformer method, prints that it falls back to keyword matching and then shows the
  result of \<^verbatim>\<open>keyword_matching\<close>, in that same call.
\<close>

theorem import_error_handling:
  "(jobs \<noteq> [] \<and> library model_name = Inl ImportError \<longrightarrow>
      (\<exists>lines. process_query library jobs query input_file output_file model_name =
         Inr \<lparr>rank_printed = lines @ [''Error: Sentence Transformers not installed.'',
                                     ''To install: pip install sentence-transformers''],
              saved = None\<rparr>))
   \<and> (jobs \<noteq> [] \<and> library ''all-MiniLM-L6-v2'' = Inl ImportError \<longrightarrow>
        (\<exists>lines. process_multiple_queries library jobs queries input_file output_file =
           Inr \<lparr>rank_printed = lines @ [''Error: Sentence Transformers not installed.'',
                                       ''To install: pip install sentence-transformers''],
                saved = None\<rparr>))
   \<and> (jobs \<noteq> [] \<and> library ''all-MiniLM-L6-v2'' = Inl ImportError
        \<and> args_method args = Transformer \<longrightarrow>
        (\<forall>matches. keyword_matching jobs (py_words (args_query args)) = Inr matches \<longrightarrow>
           (\<exists>lines. search_main library jobs args =
              Inr \<lparr>printed = lines @
                     [''Sentence Transformers not installed. Falling back to keyword matching.'',
                      ''To install: pip install sentence-transformers''],
                   found = py_take (args_results args) matches\<rparr>)))"
proof (intro conjI allI impI)
  assume "jobs \<noteq> [] \<and> library model_name = Inl ImportError"
  then have "jobs \<noteq> []" and "library model_name = Inl ImportError"
    by blast+
  then show "\<exists>lines. process_query library jobs query input_file output_file model_name =
         Inr \<lparr>rank_printed = lines @ [''Error: Sentence Transformers not installed.'',
                                     ''To install: pip install sentence-transformers''],
              saved = None\<rparr>"
    using process_query_import_error by blast
next
  assume "jobs \<noteq> [] \<and> library ''all-MiniLM-L6-v2'' = Inl ImportError"
  then have "jobs \<noteq> []" and "library ''all-MiniLM-L6-v2'' = Inl ImportError"
    by blast+
  then show "\<exists>lines. process_multiple_queries library jobs queries input_file output_file =
           Inr \<lparr>rank_printed = lines @ [''Error: Sentence Transformers not installed.'',
                                       ''To install: pip install sentence-transformers''],
                saved = None\<rparr>"
    using process_multiple_queries_import_error by blast
next
  fix matches
  assume "jobs \<noteq> [] \<and> library ''all-MiniLM-L6-v2'' = Inl ImportError
        \<and> args_method args = Transformer"
    and m: "keyword_matching jobs (py_words (args_query args)) = Inr matches"
  then have "jobs \<noteq> []" and "library ''all-MiniLM-L6-v2'' = Inl ImportError"
    and "args_method args = Transformer"
    by blast+
  with m search_main_import_error [of jobs library args matches]
  show "\<exists>lines. search_main library jobs args =
              Inr \<lparr>printed = lines @
                     [''Sentence Transformers not installed. Falling back to keyword matching.'',
                      ''To install: pip install sentence-transformers''],
                   found = py_take (args_results args) matches\<rparr>"
    by blast
qed

lemma ex_fallback:
  "search_main ex_no_library [ex_job_cook, ex_job_python] ex_search_args =
     Inr \<lparr>printed =
            [''Loaded 2 jobs. Searching for: '' @ [CHR 0x27] @ ''python data'' @ [CHR 0x27],
             ''Loading sentence transformer model (this may take a moment)...'',
             ''Sentence Transformers not installed. Falling back to keyword matching.'',
             ''To install: pip install sentence-transformers''],
          found = [(ex_job_python, 1 / 2)]\<rparr>"
  by code_simp

text \<open>
  The claim as stated fails for search.py: with the transformer method chosen and a
  library that raises \<^verbatim>\<open>ImportError\<close>, the call shows the keyword result.
\<close>

theorem search_falls_back_to_keywords:
  "args_method ex_search_args = Transformer
   \<and> ex_no_library ''all-MiniLM-L6-v2'' = Inl ImportError
   \<and> search_main ex_no_library [ex_job_cook, ex_job_python] ex_search_args =
       Inr \<lparr>printed =
              [''Loaded 2 jobs. Searching for: '' @ [CHR 0x27] @ ''python data'' @ [CHR 0x27],
               ''Loading sentence transformer model (this may take a moment)...'',
               ''Sentence Transformers not installed. Falling back to keyword matching.'',
               ''To install: pip install sentence-transformers''],
            found = [(ex_job_python, 1 / 2)]\<rparr>
   \<and> keyword_matching [ex_job_cook, ex_job_python] (py_words (args_query ex_search_args))
       = Inr [(ex_job_python, 1 / 2)]"
  using ex_fallback ex_keyword by (simp add: ex_search_args_def ex_no_library_def)

text \<open>
  On the example, the two ranking functions save nothing and the search shows the keyword
  result.
\<close>

theorem import_error_handling_witness:
  "[ex_job_cook, ex_job_python] \<noteq> []
   \<and> ex_no_library ''all-MiniLM-L6-v2'' = Inl ImportError
   \<and> args_method ex_search_args = Transformer
   \<and> saved (projr (process_query ex_no_library [ex_job_cook, ex_job_python] ''python data''
         ''jobs.json'' None ''all-MiniLM-L6-v2'')) = None
   \<and> saved (projr (process_multiple_queries ex_no_library [ex_job_cook, ex_job_python]
         [''python'', ''data''] ''jobs.json'' None)) = None
   \<and> found (projr (search_main ex_no_library [ex_job_cook, ex_job_python] ex_search_args))
       = [(ex_job_python, 1 / 2)]"
proof -
  have ne: "[ex_job_cook, ex_job_python] \<noteq> []" by simp
  have lib: "ex_no_library ''all-MiniLM-L6-v2'' = Inl ImportError"
    by (simp add: ex_no_library_def)
  have meth: "args_method ex_search_args = Transformer"
    by (simp add: ex_search_args_def)
  have kw: "keyword_matching [ex_job_cook, ex_job_python] (py_words (args_query ex_search_args))
      = Inr [(ex_job_python, 1 / 2)]"
    using ex_keyword by (simp add: ex_search_args_def)
  note H = import_error_handling [of "[ex_job_cook, ex_job_python]" ex_no_library
      "''all-MiniLM-L6-v2''" "''python data''" "''jobs.json''" None "[''python'', ''data'']"
      ex_search_args]
  from H ne lib obtain l1 where "process_query ex_no_library [ex_job_cook, ex_job_python]
      ''python data'' ''jobs.json'' None ''all-MiniLM-L6-v2''
      = Inr \<lparr>rank_printed = l1 @ [''Error: Sentence Transformers not installed.'',
                                     ''To install: pip install sentence-transformers''],
              saved = None\<rparr>"
    by blast
  then have "saved (projr (process_query ex_no_library [ex_job_cook, ex_job_python]
      ''python data'' ''jobs.json'' None ''all-MiniLM-L6-v2'')) = None"
    by simp
  moreover from H ne lib obtain l2 where "process_multiple_queries ex_no_library
      [ex_job_cook, ex_job_python] [''python'', ''data''] ''jobs.json'' None
      = Inr \<lparr>rank_printed = l2 @ [''Error: Sentence Transformers not installed.'',
                                     ''To install: pip install sentence-transformers''],
              saved = None\<rparr>"
    by blast
  then have "saved (projr (process_multiple_queries ex_no_library
      [ex_job_cook, ex_job_python] [''python'', ''data''] ''jobs.json'' None)) = None"
    by simp
  moreover from H ne lib meth kw obtain l3 where
    "search_main ex_no_library [ex_job_cook, ex_job_python] ex_search_args
      = Inr \<lparr>printed = l3 @
                     [''Sentence Transformers not installed. Falling back to keyword matching.'',
                      ''To install: pip install sentence-transformers''],
                   found = py_take (args_results ex_search_args) [(ex_job_python, 1 / 2)]\<rparr>"
    by blast
  then have "found (projr (search_main ex_no_library [ex_job_cook, ex_job_python] ex_search_args))
      = py_take (args_results ex_search_args) [(ex_job_python, 1 / 2)]"
    by simp
  then have "found (projr (search_main ex_no_library [ex_job_cook, ex_job_python] ex_search_args))
      = [(ex_job_python, 1 / 2)]"
    by (simp add: ex_search_args_def py_take_def)
  ultimately show ?thesis
    using ne lib meth by blast
qed

end
